theory Spec2Isabelle
  imports Complex_Main
begin

section \<open>Data handled by the two scripts\<close>

text \<open>
  Both scripts, \<^verbatim>\<open>app/octopus_to_influxdb.py\<close> and \<^verbatim>\<open>app/agile_to_influxdb.py\<close>, work
  on the JSON records of the metering API and on a configuration dictionary. A record
  with fixed keys is a \<^theory_text>\<open>record\<close>; timestamps stay the strings the API sent; numbers
  are values of a type \<open>'n\<close> of which only the operations \<open>*\<close>, \<open>+\<close>, \<open>/\<close> and the
  literals are used: a cost is the term the script computes, and no law of arithmetic is
  called upon to state or prove what a field holds. The examples run on the reals.
\<close>

record 'n consumption_interval =
  interval_start :: string
  interval_end :: string
  consumption :: 'n

record 'n rate_point =
  valid_from :: string
  valid_to :: string
  value_inc_vat :: 'n

text \<open>
  The values \<^verbatim>\<open>cmd\<close> stores in \<^verbatim>\<open>rate_data\<close>: floats (\<^verbatim>\<open>config.getfloat\<close>), strings or
  \<^verbatim>\<open>None\<close> (\<^verbatim>\<open>config.get\<close> with \<^verbatim>\<open>fallback=None\<close>) and the list of agile rates.
\<close>

datatype 'n pyval = Num 'n | Str string | NoneVal | Rates "'n rate_point list"

type_synonym 'n rate_data = "string \<rightharpoonup> 'n pyval"

text \<open>
  The dictionaries handed to \<^verbatim>\<open>connection.write_points\<close>; the key \<^verbatim>\<open>fields\<close> is the
  record field \<open>point_fields\<close>.
\<close>

record 'v point =
  measurement :: string
  tags :: "string \<rightharpoonup> string"
  time :: string
  point_fields :: "string \<rightharpoonup> 'v"

datatype error =
    KeyError string
  | TypeError
  | ValueError string
  | MayaError string
  | ClickException string

section \<open>Python semantics used by the scripts\<close>

definition and_then :: "error + 'a \<Rightarrow> ('a \<Rightarrow> error + 'b) \<Rightarrow> error + 'b" where
  \<comment> \<open>Sequencing of two statements of which the first may raise.\<close>
  "and_then r f = (case r of Inl e \<Rightarrow> Inl e | Inr x \<Rightarrow> f x)"

definition getitem :: "(string \<rightharpoonup> 'v) \<Rightarrow> string \<Rightarrow> error + 'v" where
  \<comment> \<open>\<^verbatim>\<open>d[k]\<close>: a missing key raises.\<close>
  "getitem d k = (case d k of None \<Rightarrow> Inl (KeyError k) | Some v \<Rightarrow> Inr v)"

fun truthy :: "'n::zero pyval \<Rightarrow> bool" where
  "truthy (Num n) = (n \<noteq> 0)"
| "truthy (Str s) = (s \<noteq> [])"
| "truthy NoneVal = False"
| "truthy (Rates l) = (l \<noteq> [])"

text \<open>
  A value of the wrong kind in an arithmetic operation or a library call is reported as
  \<open>TypeError\<close>; \<^verbatim>\<open>cmd\<close> never stores one.
\<close>

fun as_num :: "'n pyval \<Rightarrow> error + 'n" where
  "as_num (Num n) = Inr n"
| "as_num _ = Inl TypeError"

fun as_str :: "'n pyval \<Rightarrow> error + string" where
  "as_str (Str s) = Inr s"
| "as_str _ = Inl TypeError"

definition dict_of :: "('k \<times> 'v) list \<Rightarrow> ('k \<rightharpoonup> 'v)" where
  \<comment> \<open>A dict comprehension over the pairs in order: a repeated key keeps its last value.\<close>
  "dict_of kvs = map_of (rev kvs)"

fun map_raise :: "('a \<Rightarrow> error + 'b) \<Rightarrow> 'a list \<Rightarrow> error + 'b list" where
  \<comment> \<open>A list comprehension whose body may raise: the first exception ends it.\<close>
  "map_raise f [] = Inr []"
| "map_raise f (x # xs) =
     (case f x of
        Inl e \<Rightarrow> Inl e
      | Inr y \<Rightarrow> (case map_raise f xs of Inl e \<Rightarrow> Inl e | Inr ys \<Rightarrow> Inr (y # ys)))"

section \<open>The date library\<close>

text \<open>
  The scripts call the \<^verbatim>\<open>maya\<close> library for everything about dates. Its parser and
  its time-zone database are parameters of the model: \<open>maya_parse s\<close> is
  \<^verbatim>\<open>maya.parse(s)\<close>, \<open>maya_when s z\<close> is \<^verbatim>\<open>maya.when(s, timezone=z)\<close>,
  \<open>maya_iso8601 t\<close> is \<^verbatim>\<open>t.iso8601()\<close> and \<open>maya_strftime t z f\<close> is
  \<^verbatim>\<open>t.datetime(to_timezone=z).strftime(f)\<close>, where \<open>z = None\<close> is the call without a
  zone, \<^verbatim>\<open>t.datetime()\<close>. \<open>None\<close> as a result means that the call raises. The type
  \<open>'t\<close> is that of the instants (\<^verbatim>\<open>MayaDT\<close>), ordered by their epoch.
\<close>

record 't maya =
  maya_parse :: "string \<Rightarrow> 't option"
  maya_when :: "string \<Rightarrow> string \<Rightarrow> 't option"
  maya_iso8601 :: "'t \<Rightarrow> string"
  maya_strftime :: "'t \<Rightarrow> string option \<Rightarrow> string \<Rightarrow> string option"

definition or_raise :: "string \<Rightarrow> 'a option \<Rightarrow> error + 'a" where
  "or_raise what r = (case r of None \<Rightarrow> Inl (MayaError what) | Some x \<Rightarrow> Inr x)"

text \<open>
  \<^verbatim>\<open>maya.MayaInterval(start, end)\<close> refuses an interval that ends before it starts, and
  \<^verbatim>\<open>dt in interval\<close> is the library's \<^verbatim>\<open>start <= dt < end\<close>.
\<close>

definition MayaInterval :: "'t::linorder \<Rightarrow> 't \<Rightarrow> error + ('t \<times> 't)" where
  "MayaInterval start finish =
     (if start > finish then Inl (ValueError ''MayaInterval cannot end before it starts'')
      else Inr (start, finish))"

definition contains_dt :: "('t::linorder \<times> 't) \<Rightarrow> 't \<Rightarrow> bool" where
  "contains_dt period dt = (fst period \<le> dt \<and> dt < snd period)"

section \<open>\<^verbatim>\<open>octopus_to_influxdb.py\<close>: consumption with costs\<close>

definition get_agile_data :: "'n rate_data \<Rightarrow> error + 'n rate_point list" where
  \<comment> \<open>\<^verbatim>\<open>rate_data.get('agile_unit_rates', [])\<close>, as the comprehensions iterate it.\<close>
  "get_agile_data rate_data =
     (case rate_data ''agile_unit_rates'' of
        None \<Rightarrow> Inr []
      | Some (Rates l) \<Rightarrow> Inr l
      | Some (Str s) \<Rightarrow> (if s = [] then Inr [] else Inl TypeError)
      | Some _ \<Rightarrow> Inl TypeError)"

definition agile_rates_to :: "'n rate_point list \<Rightarrow> (string \<rightharpoonup> 'n)" where
  "agile_rates_to agile_data = dict_of (map (\<lambda>point. (valid_to point, value_inc_vat point)) agile_data)"

definition agile_rates_from :: "'n rate_point list \<Rightarrow> (string \<rightharpoonup> 'n)" where
  \<comment> \<open>Built by \<^verbatim>\<open>store_series\<close> next to \<open>agile_rates_to\<close>, and read nowhere in it.\<close>
  "agile_rates_from agile_data = dict_of (map (\<lambda>point. (valid_from point, value_inc_vat point)) agile_data)"

definition low_band_instant ::
  "'t maya \<Rightarrow> 't \<Rightarrow> 'n pyval \<Rightarrow> 'n pyval \<Rightarrow> error + 't" where
  \<comment> \<open>\<^verbatim>\<open>maya.when(measurement_at.datetime(to_timezone=low_zone).strftime(f'%Y-%m-%dT{clock}'), timezone=low_zone)\<close>\<close>
  "low_band_instant L measurement_at low_zone clock =
     and_then (as_str low_zone) (\<lambda>zone.
     and_then (as_str clock) (\<lambda>clock_str.
     and_then (or_raise ''datetime'' (maya_strftime L measurement_at (Some zone) (''%Y-%m-%dT'' @ clock_str))) (\<lambda>local.
     or_raise ''when'' (maya_when L local zone))))"

definition active_rate_field ::
  "'t::linorder maya \<Rightarrow> string \<Rightarrow> 'n::zero rate_data \<Rightarrow> 'n consumption_interval \<Rightarrow> error + string" where
  "active_rate_field L series rate_data m =
     (if series = ''gas'' then Inr ''unit_rate''
      else
        and_then (getitem rate_data ''unit_rate_low_zone'') (\<lambda>zone_set.
        if \<not> truthy zone_set then Inr ''unit_rate_high''
        else
          and_then (getitem rate_data ''unit_rate_low_start'') (\<lambda>low_start_str.
          and_then (getitem rate_data ''unit_rate_low_end'') (\<lambda>low_end_str.
          and_then (getitem rate_data ''unit_rate_low_zone'') (\<lambda>low_zone.
          and_then (or_raise ''parse'' (maya_parse L (interval_start m))) (\<lambda>measurement_at.
          and_then (low_band_instant L measurement_at low_zone low_start_str) (\<lambda>low_start.
          and_then (low_band_instant L measurement_at low_zone low_end_str) (\<lambda>low_end.
          and_then (MayaInterval low_start low_end) (\<lambda>low_period.
          Inr (if contains_dt low_period measurement_at then ''unit_rate_low''
               else ''unit_rate_high''))))))))))"

definition fields_for_measurement ::
  "'t::linorder maya \<Rightarrow> string \<Rightarrow> 'n::{zero,times,inverse,numeral} rate_data \<Rightarrow>
   'n rate_point list \<Rightarrow> 'n consumption_interval \<Rightarrow> error + (string \<rightharpoonup> 'n)" where
  "fields_for_measurement L series rate_data agile_data m =
     and_then (active_rate_field L series rate_data m) (\<lambda>rate.
     and_then (getitem rate_data rate) (\<lambda>rate_cost_v.
     and_then (as_num rate_cost_v) (\<lambda>rate_cost.
     let cost = consumption m * rate_cost in
     and_then (getitem rate_data ''standing_charge'') (\<lambda>standing_charge_v.
     and_then (as_num standing_charge_v) (\<lambda>sc.
     let standing_charge = sc / 48;
         fields = [''consumption'' \<mapsto> consumption m,
                   ''cost'' \<mapsto> cost,
                   ''total_cost'' \<mapsto> cost + standing_charge]
     in
     if agile_data \<noteq> [] then
       and_then (getitem rate_data ''agile_standing_charge'') (\<lambda>asc_v.
       and_then (as_num asc_v) (\<lambda>asc.
       let agile_standing_charge = asc / 48 in
       and_then (or_raise ''parse'' (maya_parse L (interval_end m))) (\<lambda>end_at.
       and_then (getitem rate_data rate) (\<lambda>fallback.
       and_then (as_num (case agile_rates_to agile_data (maya_iso8601 L end_at) of
                           Some v \<Rightarrow> Num v | None \<Rightarrow> fallback)) (\<lambda>agile_unit_rate.
       let agile_cost = agile_unit_rate * consumption m in
       Inr (fields ++ [''agile_rate'' \<mapsto> agile_unit_rate,
                       ''agile_cost'' \<mapsto> agile_cost,
                       ''agile_total_cost'' \<mapsto> agile_cost + agile_standing_charge]))))))
     else Inr fields)))))"

definition tags_for_measurement ::
  "'t::linorder maya \<Rightarrow> string \<Rightarrow> 'n::zero rate_data \<Rightarrow> 'n consumption_interval \<Rightarrow>
   error + (string \<rightharpoonup> string)" where
  "tags_for_measurement L series rate_data m =
     and_then (or_raise ''parse'' (maya_parse L (interval_end m))) (\<lambda>period.
     and_then (or_raise ''datetime'' (maya_strftime L period None ''%H:%M'')) (\<lambda>time_str.
     and_then (active_rate_field L series rate_data m) (\<lambda>rate.
     Inr [''active_rate'' \<mapsto> rate, ''time_of_day'' \<mapsto> time_str])))"

definition measurements ::
  "'t::linorder maya \<Rightarrow> string \<Rightarrow> 'n::{zero,times,inverse,numeral} consumption_interval list \<Rightarrow>
   'n rate_data \<Rightarrow> error + 'n point list" where
  \<comment> \<open>The body of \<^verbatim>\<open>store_series\<close> up to the call of \<^verbatim>\<open>write_points\<close>.\<close>
  "measurements L series metrics rate_data =
     and_then (get_agile_data rate_data) (\<lambda>agile_data.
     map_raise (\<lambda>m.
       and_then (tags_for_measurement L series rate_data m) (\<lambda>tg.
       and_then (fields_for_measurement L series rate_data agile_data m) (\<lambda>fl.
       Inr \<lparr>measurement = series, tags = tg, time = interval_end m, point_fields = fl\<rparr>)))
       metrics)"

definition write_points :: "'p list \<Rightarrow> 'p list \<Rightarrow> 'p list" where
  \<comment> \<open>The storage client keeps what it is given: the connection is the log of the points written.\<close>
  "write_points connection ms = connection @ ms"

definition store_series ::
  "'t::linorder maya \<Rightarrow> 'n point list \<Rightarrow> string \<Rightarrow>
   'n::{zero,times,inverse,numeral} consumption_interval list \<Rightarrow> 'n rate_data \<Rightarrow>
   error option \<times> 'n point list" where
  \<comment> \<open>The exception raised, if any, and the connection as the call leaves it.\<close>
  "store_series L connection series metrics rate_data =
     (case measurements L series metrics rate_data of
        Inl e \<Rightarrow> (Some e, connection)
      | Inr ms \<Rightarrow> (None, write_points connection ms))"

section \<open>\<^verbatim>\<open>agile_to_influxdb.py\<close>: the agile rates alone\<close>

definition agile_rates_with_from_dates :: "'n rate_point list \<Rightarrow> (string \<rightharpoonup> 'n)" where
  "agile_rates_with_from_dates agile_rates =
     dict_of (map (\<lambda>point. (valid_from point, value_inc_vat point)) agile_rates)"

definition agile_fields_for_measurement ::
  "'t maya \<Rightarrow> 'n rate_point list \<Rightarrow> 'n rate_point \<Rightarrow> error + (string \<rightharpoonup> 'n option)" where
  \<comment> \<open>\<^verbatim>\<open>fields_for_measurement\<close> of this script; \<^verbatim>\<open>dict.get(k, None)\<close> is the lookup itself.\<close>
  "agile_fields_for_measurement L agile_rates m =
     and_then (or_raise ''parse'' (maya_parse L (valid_from m))) (\<lambda>from_at.
     let valid_from_iso = maya_iso8601 L from_at in
     and_then (or_raise ''parse'' (maya_parse L (valid_to m))) (\<lambda>to_at.
     let valid_to_iso = maya_iso8601 L to_at;
         agile_rate_prev = agile_rates_with_from_dates agile_rates valid_from_iso;
         agile_rate_next = agile_rates_with_from_dates agile_rates valid_to_iso
     in Inr [''agile_rate_prev'' \<mapsto> agile_rate_prev,
             ''agile_rate_next'' \<mapsto> agile_rate_next]))"

definition agile_measurements ::
  "'t maya \<Rightarrow> string \<Rightarrow> 'n rate_point list \<Rightarrow> error + 'n option point list" where
  "agile_measurements L series agile_rates =
     map_raise (\<lambda>m.
       and_then (agile_fields_for_measurement L agile_rates m) (\<lambda>fl.
       Inr \<lparr>measurement = series, tags = Map.empty, time = valid_to m, point_fields = fl\<rparr>))
       agile_rates"

definition agile_store_series ::
  "'t maya \<Rightarrow> 'n option point list \<Rightarrow> string \<Rightarrow> 'n rate_point list \<Rightarrow>
   error option \<times> 'n option point list" where
  \<comment> \<open>\<^verbatim>\<open>store_series\<close> of this script.\<close>
  "agile_store_series L connection series agile_rates =
     (if agile_rates = [] then (Some (ClickException ''No Agile rate data to store''), connection)
      else
        (case agile_measurements L series agile_rates of
           Inl e \<Rightarrow> (Some e, connection)
         | Inr ms \<Rightarrow> (None, write_points connection ms)))"

section \<open>A fragment of the date library, for the examples\<close>

text \<open>
  The examples below run the scripts on the night of 31 May to 1 June 2020, when
  \<^verbatim>\<open>Europe/London\<close> is one hour ahead of UTC. \<open>london_night\<close> tabulates what the
  library answers on the timestamps they use, instants being seconds since the epoch:
  23:00 UTC is 1590966000, 23:30 UTC is 1590967800 and 00:00 UTC is 1590969600. Outside
  the table a call that may raise does, and \<open>london_iso8601\<close> gives the empty string.
\<close>

definition london_parse :: "string \<Rightarrow> int option" where
  "london_parse = map_of
     [(''2020-05-31T23:00:00Z'', 1590966000),
      (''2020-06-01T00:00:00+01:00'', 1590966000),
      (''2020-05-31T23:30:00Z'', 1590967800),
      (''2020-06-01T00:30:00+01:00'', 1590967800),
      (''2020-06-01T00:00:00Z'', 1590969600),
      (''2020-06-01T01:00:00+01:00'', 1590969600)]"

definition london_when :: "string \<Rightarrow> string \<Rightarrow> int option" where
  "london_when s z = map_of
     [((''2020-06-01T00:30'', ''Europe/London''), 1590967800),
      ((''2020-06-01T04:30'', ''Europe/London''), 1590982200),
      ((''2020-06-01T05:30'', ''Europe/London''), 1590985800),
      ((''2020-06-01T23:30'', ''Europe/London''), 1591050600)] (s, z)"

definition london_iso8601 :: "int \<Rightarrow> string" where
  "london_iso8601 t =
     (if t = 1590966000 then ''2020-05-31T23:00:00Z''
      else if t = 1590967800 then ''2020-05-31T23:30:00Z''
      else if t = 1590969600 then ''2020-06-01T00:00:00Z''
      else [])"

definition london_strftime :: "int \<Rightarrow> string option \<Rightarrow> string \<Rightarrow> string option" where
  \<comment> \<open>The clock in UTC and in London at the three instants, and the London calendar day,
     which is 1 June from 23:00 UTC on 31 May until 23:00 UTC on 1 June.\<close>
  "london_strftime t z fmt =
     (if z = None \<and> fmt = ''%H:%M'' then
        map_of [(1590966000, ''23:00''), (1590967800, ''23:30''), (1590969600, ''00:00'')] t
      else if z = Some ''Europe/London'' \<and> fmt = ''%H:%M'' then
        map_of [(1590966000, ''00:00''), (1590967800, ''00:30''), (1590969600, ''01:00'')] t
      else if z = Some ''Europe/London'' \<and> take 9 fmt = ''%Y-%m-%dT'' \<and>
              CHR ''%'' \<notin> set (drop 9 fmt) \<and> 1590966000 \<le> t \<and> t < 1591052400 then
        Some (''2020-06-01T'' @ drop 9 fmt)
      else None)"

definition london_night :: "int maya" where
  "london_night = \<lparr>maya_parse = london_parse, maya_when = london_when,
                   maya_iso8601 = london_iso8601, maya_strftime = london_strftime\<rparr>"

section \<open>Inputs of the examples\<close>

text \<open>
  An electricity tariff with a cheap band from 00:30 to 04:30 London time, a gas tariff, two
  half-hourly readings as the consumption endpoint sends them in summer (local time with
  its offset) and the agile rates of the same night as the rates endpoint sends them (UTC).
\<close>

definition go_tariff :: "real rate_data" where
  "go_tariff =
     [''standing_charge'' \<mapsto> Num 24,
      ''unit_rate_high'' \<mapsto> Num (3 / 10),
      ''unit_rate_low'' \<mapsto> Num (1 / 20),
      ''unit_rate_low_start'' \<mapsto> Str ''00:30'',
      ''unit_rate_low_end'' \<mapsto> Str ''04:30'',
      ''unit_rate_low_zone'' \<mapsto> Str ''Europe/London'',
      ''agile_standing_charge'' \<mapsto> Num 21,
      ''agile_unit_rates'' \<mapsto> Rates []]"

definition gas_tariff :: "real rate_data" where
  "gas_tariff = [''standing_charge'' \<mapsto> Num 24, ''unit_rate'' \<mapsto> Num (3 / 100)]"

definition reading_0000 :: "real consumption_interval" where
  "reading_0000 = \<lparr>interval_start = ''2020-06-01T00:00:00+01:00'',
                    interval_end = ''2020-06-01T00:30:00+01:00'', consumption = 1 / 2\<rparr>"

definition reading_0030 :: "real consumption_interval" where
  "reading_0030 = \<lparr>interval_start = ''2020-06-01T00:30:00+01:00'',
                    interval_end = ''2020-06-01T01:00:00+01:00'', consumption = 1 / 4\<rparr>"

definition rate_2300 :: "real rate_point" where
  "rate_2300 = \<lparr>valid_from = ''2020-05-31T23:00:00Z'', valid_to = ''2020-05-31T23:30:00Z'',
                 value_inc_vat = 7\<rparr>"

definition rate_2330 :: "real rate_point" where
  "rate_2330 = \<lparr>valid_from = ''2020-05-31T23:30:00Z'', valid_to = ''2020-06-01T00:00:00Z'',
                 value_inc_vat = 9\<rparr>"

definition overnight_tariff :: "real rate_data" where
  \<comment> \<open>The same tariff with a cheap band from 23:30 to 05:30, across midnight.\<close>
  "overnight_tariff =
     go_tariff(''unit_rate_low_start'' \<mapsto> Str ''23:30'', ''unit_rate_low_end'' \<mapsto> Str ''05:30'')"

definition gap_tariff :: "real rate_data" where
  \<comment> \<open>The electricity tariff with an agile schedule that lacks the half hour ending 23:30 UTC.\<close>
  "gap_tariff = go_tariff(''agile_unit_rates'' \<mapsto> Rates [rate_2330])"

definition reading_utc :: "real consumption_interval" where
  \<comment> \<open>The reading \<open>reading_0000\<close> with its two instants written in UTC.\<close>
  "reading_utc = \<lparr>interval_start = ''2020-05-31T23:00:00Z'',
                   interval_end = ''2020-05-31T23:30:00Z'', consumption = 1 / 2\<rparr>"

definition rate_0000_local :: "real rate_point" where
  \<comment> \<open>The rate \<open>rate_2300\<close> with its two instants written in London time.\<close>
  "rate_0000_local = \<lparr>valid_from = ''2020-06-01T00:00:00+01:00'',
                       valid_to = ''2020-06-01T00:30:00+01:00'', value_inc_vat = 7\<rparr>"

definition local_tariff :: "real rate_data" where
  "local_tariff = go_tariff(''agile_unit_rates'' \<mapsto> Rates [rate_0000_local])"

definition reading_hour :: "real consumption_interval" where
  \<comment> \<open>A reading that spans a whole hour, from 23:00 UTC to 00:00 UTC.\<close>
  "reading_hour = \<lparr>interval_start = ''2020-06-01T00:00:00+01:00'',
                    interval_end = ''2020-06-01T01:00:00+01:00'', consumption = 1\<rparr>"

definition rate_backwards :: "real rate_point" where
  \<comment> \<open>A rate that ends, at 23:30 UTC, half an hour before it starts.\<close>
  "rate_backwards = \<lparr>valid_from = ''2020-06-01T00:00:00Z'', valid_to = ''2020-05-31T23:30:00Z'',
                      value_inc_vat = 9\<rparr>"

definition backwards_tariff :: "real rate_data" where
  "backwards_tariff = go_tariff(''agile_unit_rates'' \<mapsto> Rates [rate_backwards])"

section \<open>Facts about the Python fragments\<close>

lemma and_then_Inr [simp]: "and_then (Inr x) f = f x"
  by (simp add: and_then_def)

lemma and_then_Inl [simp]: "and_then (Inl e) f = Inl e"
  by (simp add: and_then_def)

lemma and_then_eq_Inr: "and_then r f = Inr y \<longleftrightarrow> (\<exists>x. r = Inr x \<and> f x = Inr y)"
  by (cases r) simp_all

lemma getitem_eq_Inr: "getitem d k = Inr v \<longleftrightarrow> d k = Some v"
  by (simp add: getitem_def split: option.splits)

lemma or_raise_eq_Inr: "or_raise w r = Inr x \<longleftrightarrow> r = Some x"
  by (simp add: or_raise_def split: option.splits)

lemma as_num_eq_Inr: "as_num v = Inr n \<longleftrightarrow> v = Num n"
  by (cases v) simp_all

lemma as_str_eq_Inr: "as_str v = Inr s \<longleftrightarrow> v = Str s"
  by (cases v) simp_all

lemma map_raise_Inr:
  "map_raise f xs = Inr ys \<Longrightarrow> list_all2 (\<lambda>x y. f x = Inr y) xs ys"
proof (induction xs arbitrary: ys)
  case Nil
  then show ?case by simp
next
  case (Cons x xs)
  then show ?case by (auto split: sum.splits)
qed

lemma map_raise_total:
  "(\<And>x. x \<in> set xs \<Longrightarrow> \<exists>y. f x = Inr y) \<Longrightarrow> \<exists>ys. map_raise f xs = Inr ys"
proof (induction xs)
  case Nil
  then show ?case by simp
next
  case (Cons x xs)
  then obtain y where "f x = Inr y" by auto
  moreover from Cons obtain ys where "map_raise f xs = Inr ys" by auto
  ultimately show ?case by simp
qed

lemma map_raise_cong:
  "(\<And>x. x \<in> set xs \<Longrightarrow> f x = g x) \<Longrightarrow> map_raise f xs = map_raise g xs"
  by (induction xs) (simp_all split: sum.splits)

lemma map_raise_map: "map_raise f (map h xs) = map_raise (\<lambda>x. f (h x)) xs"
  by (induction xs) (simp_all split: sum.splits)

lemma dict_of_eq_None: "dict_of kvs k = None \<longleftrightarrow> k \<notin> fst ` set kvs"
  by (simp add: dict_of_def map_of_eq_None_iff)

lemma dict_of_unique:
  assumes "(k, v) \<in> set kvs" and "\<And>v'. (k, v') \<in> set kvs \<Longrightarrow> v' = v"
  shows "dict_of kvs k = Some v"
proof -
  from assms(1) have "k \<in> fst ` set (rev kvs)" by force
  then obtain w where w: "map_of (rev kvs) k = Some w"
    by (metis map_of_eq_None_iff not_Some_eq)
  then have "(k, w) \<in> set kvs" by (auto dest: map_of_SomeD)
  with assms(2) w show ?thesis by (simp add: dict_of_def)
qed

lemma measurements_Inr:
  assumes "measurements L series metrics rd = Inr pts"
  shows "\<exists>agile. get_agile_data rd = Inr agile \<and> length pts = length metrics \<and>
           (\<forall>i<length metrics. \<exists>tg fl.
              tags_for_measurement L series rd (metrics ! i) = Inr tg \<and>
              fields_for_measurement L series rd agile (metrics ! i) = Inr fl \<and>
              pts ! i = \<lparr>measurement = series, tags = tg,
                         time = interval_end (metrics ! i), point_fields = fl\<rparr>)"
proof -
  from assms obtain agile where ag: "get_agile_data rd = Inr agile"
    and mr: "map_raise (\<lambda>m.
       and_then (tags_for_measurement L series rd m) (\<lambda>tg.
       and_then (fields_for_measurement L series rd agile m) (\<lambda>fl.
       Inr \<lparr>measurement = series, tags = tg, time = interval_end m, point_fields = fl\<rparr>)))
       metrics = Inr pts"
    by (auto simp: measurements_def and_then_eq_Inr)
  from map_raise_Inr [OF mr] have l2: "list_all2 (\<lambda>m y.
       and_then (tags_for_measurement L series rd m) (\<lambda>tg.
       and_then (fields_for_measurement L series rd agile m) (\<lambda>fl.
       Inr \<lparr>measurement = series, tags = tg, time = interval_end m, point_fields = fl\<rparr>)) = Inr y)
       metrics pts" .
  then have len: "length pts = length metrics"
    by (simp add: list_all2_lengthD)
  have "\<exists>tg fl. tags_for_measurement L series rd (metrics ! i) = Inr tg \<and>
              fields_for_measurement L series rd agile (metrics ! i) = Inr fl \<and>
              pts ! i = \<lparr>measurement = series, tags = tg,
                         time = interval_end (metrics ! i), point_fields = fl\<rparr>"
    if "i < length metrics" for i
  proof -
    from list_all2_nthD [OF l2 that] have "and_then (tags_for_measurement L series rd (metrics ! i)) (\<lambda>tg.
       and_then (fields_for_measurement L series rd agile (metrics ! i)) (\<lambda>fl.
       Inr \<lparr>measurement = series, tags = tg, time = interval_end (metrics ! i), point_fields = fl\<rparr>))
       = Inr (pts ! i)"
      by simp
    then show ?thesis
      by (auto simp: and_then_eq_Inr)
  qed
  with ag len show ?thesis by blast
qed

lemma store_series_written:
  assumes "store_series L connection series metrics rd = (None, conn')"
  shows "\<exists>pts. measurements L series metrics rd = Inr pts \<and> conn' = connection @ pts"
  using assms by (auto simp: store_series_def write_points_def split: sum.splits)

lemma store_series_raised:
  assumes "store_series L connection series metrics rd = (Some e, conn')"
  shows "measurements L series metrics rd = Inl e \<and> conn' = connection"
  using assms by (auto simp: store_series_def write_points_def split: sum.splits)

lemma fields_for_measurement_Inr:
  assumes "fields_for_measurement L series rd agile m = Inr fl"
  shows "\<exists>rate p sc. active_rate_field L series rd m = Inr rate \<and> rd rate = Some (Num p) \<and>
           rd ''standing_charge'' = Some (Num sc) \<and>
           (agile = [] \<longrightarrow>
              fl = [''consumption'' \<mapsto> consumption m,
                    ''cost'' \<mapsto> consumption m * p,
                    ''total_cost'' \<mapsto> consumption m * p + sc / 48]) \<and>
           (agile \<noteq> [] \<longrightarrow>
              (\<exists>asc t. rd ''agile_standing_charge'' = Some (Num asc) \<and>
                 maya_parse L (interval_end m) = Some t \<and>
                 fl = [''consumption'' \<mapsto> consumption m,
                       ''cost'' \<mapsto> consumption m * p,
                       ''total_cost'' \<mapsto> consumption m * p + sc / 48] ++
                      [''agile_rate'' \<mapsto>
                         (case agile_rates_to agile (maya_iso8601 L t) of Some v \<Rightarrow> v | None \<Rightarrow> p),
                       ''agile_cost'' \<mapsto>
                         (case agile_rates_to agile (maya_iso8601 L t) of Some v \<Rightarrow> v | None \<Rightarrow> p)
                           * consumption m,
                       ''agile_total_cost'' \<mapsto>
                         (case agile_rates_to agile (maya_iso8601 L t) of Some v \<Rightarrow> v | None \<Rightarrow> p)
                           * consumption m + asc / 48]))"
proof -
  from assms obtain rate p sc where
    r: "active_rate_field L series rd m = Inr rate" and p: "rd rate = Some (Num p)"
    and sc: "rd ''standing_charge'' = Some (Num sc)"
    by (auto simp: fields_for_measurement_def and_then_eq_Inr getitem_eq_Inr as_num_eq_Inr Let_def)
  have gi: "getitem rd rate = Inr (Num p)" "getitem rd ''standing_charge'' = Inr (Num sc)"
    using p sc by (simp_all add: getitem_eq_Inr)
  show ?thesis
  proof (cases "agile = []")
    case True
    with assms r gi have "fl = [''consumption'' \<mapsto> consumption m,
                    ''cost'' \<mapsto> consumption m * p,
                    ''total_cost'' \<mapsto> consumption m * p + sc / 48]"
      by (simp add: fields_for_measurement_def Let_def)
    with r p sc True show ?thesis by blast
  next
    case False
    with assms r gi obtain asc t where
      asc: "rd ''agile_standing_charge'' = Some (Num asc)"
      and t: "maya_parse L (interval_end m) = Some t"
      by (auto simp: fields_for_measurement_def Let_def and_then_eq_Inr getitem_eq_Inr
            as_num_eq_Inr or_raise_eq_Inr)
    have gi2: "getitem rd ''agile_standing_charge'' = Inr (Num asc)"
      "or_raise ''parse'' (maya_parse L (interval_end m)) = Inr t"
      using asc t by (simp_all add: getitem_eq_Inr or_raise_eq_Inr)
    from assms r gi gi2 False have "fl = [''consumption'' \<mapsto> consumption m,
                       ''cost'' \<mapsto> consumption m * p,
                       ''total_cost'' \<mapsto> consumption m * p + sc / 48] ++
                      [''agile_rate'' \<mapsto>
                         (case agile_rates_to agile (maya_iso8601 L t) of Some v \<Rightarrow> v | None \<Rightarrow> p),
                       ''agile_cost'' \<mapsto>
                         (case agile_rates_to agile (maya_iso8601 L t) of Some v \<Rightarrow> v | None \<Rightarrow> p)
                           * consumption m,
                       ''agile_total_cost'' \<mapsto>
                         (case agile_rates_to agile (maya_iso8601 L t) of Some v \<Rightarrow> v | None \<Rightarrow> p)
                           * consumption m + asc / 48]"
      by (cases "agile_rates_to agile (maya_iso8601 L t)")
         (simp_all add: fields_for_measurement_def Let_def)
    with r p sc asc t False show ?thesis by blast
  qed
qed

lemma london_parse_simps:
  "maya_parse london_night ''2020-06-01T00:00:00+01:00'' = Some 1590966000"
  "maya_parse london_night ''2020-06-01T00:30:00+01:00'' = Some 1590967800"
  "maya_parse london_night ''2020-06-01T01:00:00+01:00'' = Some 1590969600"
  "maya_parse london_night ''2020-05-31T23:00:00Z'' = Some 1590966000"
  "maya_parse london_night ''2020-05-31T23:30:00Z'' = Some 1590967800"
  "maya_parse london_night ''2020-06-01T00:00:00Z'' = Some 1590969600"
  by (simp_all add: london_night_def london_parse_def)

lemma london_iso8601_simps:
  "maya_iso8601 london_night 1590966000 = ''2020-05-31T23:00:00Z''"
  "maya_iso8601 london_night 1590967800 = ''2020-05-31T23:30:00Z''"
  "maya_iso8601 london_night 1590969600 = ''2020-06-01T00:00:00Z''"
  by (simp_all add: london_night_def london_iso8601_def)

lemma london_time_of_day_simps:
  "maya_strftime london_night 1590967800 None ''%H:%M'' = Some ''23:30''"
  "maya_strftime london_night 1590969600 None ''%H:%M'' = Some ''00:00''"
  "maya_strftime london_night 1590967800 (Some ''Europe/London'') ''%H:%M'' = Some ''00:30''"
  by (simp_all add: london_night_def london_strftime_def)

lemma london_day_simps:
  "maya_strftime london_night 1590966000 (Some ''Europe/London'') ''%Y-%m-%dT00:30'' = Some ''2020-06-01T00:30''"
  "maya_strftime london_night 1590966000 (Some ''Europe/London'') ''%Y-%m-%dT04:30'' = Some ''2020-06-01T04:30''"
  "maya_strftime london_night 1590967800 (Some ''Europe/London'') ''%Y-%m-%dT00:30'' = Some ''2020-06-01T00:30''"
  "maya_strftime london_night 1590967800 (Some ''Europe/London'') ''%Y-%m-%dT04:30'' = Some ''2020-06-01T04:30''"
  "maya_strftime london_night 1590967800 (Some ''Europe/London'') ''%Y-%m-%dT23:30'' = Some ''2020-06-01T23:30''"
  "maya_strftime london_night 1590967800 (Some ''Europe/London'') ''%Y-%m-%dT05:30'' = Some ''2020-06-01T05:30''"
  by (simp_all add: london_night_def london_strftime_def)

lemma london_when_simps:
  "maya_when london_night ''2020-06-01T00:30'' ''Europe/London'' = Some 1590967800"
  "maya_when london_night ''2020-06-01T04:30'' ''Europe/London'' = Some 1590982200"
  "maya_when london_night ''2020-06-01T05:30'' ''Europe/London'' = Some 1590985800"
  "maya_when london_night ''2020-06-01T23:30'' ''Europe/London'' = Some 1591050600"
  by (simp_all add: london_night_def london_when_def)

lemmas london_simps = london_parse_simps london_iso8601_simps london_time_of_day_simps
  london_day_simps london_when_simps

lemma go_tariff_simps:
  "go_tariff ''standing_charge'' = Some (Num 24)"
  "go_tariff ''unit_rate_high'' = Some (Num (3 / 10))"
  "go_tariff ''unit_rate_low'' = Some (Num (1 / 20))"
  "go_tariff ''unit_rate_low_start'' = Some (Str ''00:30'')"
  "go_tariff ''unit_rate_low_end'' = Some (Str ''04:30'')"
  "go_tariff ''unit_rate_low_zone'' = Some (Str ''Europe/London'')"
  "go_tariff ''agile_standing_charge'' = Some (Num 21)"
  "go_tariff ''agile_unit_rates'' = Some (Rates [])"
  by (simp_all add: go_tariff_def)

lemma reading_simps:
  "interval_start reading_0000 = ''2020-06-01T00:00:00+01:00''"
  "interval_end reading_0000 = ''2020-06-01T00:30:00+01:00''"
  "consumption reading_0000 = 1 / 2"
  "interval_start reading_0030 = ''2020-06-01T00:30:00+01:00''"
  "interval_end reading_0030 = ''2020-06-01T01:00:00+01:00''"
  "consumption reading_0030 = 1 / 4"
  by (simp_all add: reading_0000_def reading_0030_def)

lemma go_band_0000:
  "active_rate_field london_night ''electricity'' go_tariff reading_0000 = Inr ''unit_rate_high''"
  by (simp add: active_rate_field_def low_band_instant_def getitem_def or_raise_def
        MayaInterval_def contains_dt_def go_tariff_simps reading_simps london_simps)

lemma go_band_0030:
  "active_rate_field london_night ''electricity'' go_tariff reading_0030 = Inr ''unit_rate_low''"
  by (simp add: active_rate_field_def low_band_instant_def getitem_def or_raise_def
        MayaInterval_def contains_dt_def go_tariff_simps reading_simps london_simps)

lemma go_fields_0000:
  "fields_for_measurement london_night ''electricity'' go_tariff [] reading_0000 =
     Inr [''consumption'' \<mapsto> 1 / 2, ''cost'' \<mapsto> 3 / 20, ''total_cost'' \<mapsto> 13 / 20]"
  by (simp add: fields_for_measurement_def go_band_0000 getitem_def go_tariff_simps reading_simps)

lemma go_tags_0000:
  "tags_for_measurement london_night ''electricity'' go_tariff reading_0000 =
     Inr [''active_rate'' \<mapsto> ''unit_rate_high'', ''time_of_day'' \<mapsto> ''23:30'']"
  by (simp add: tags_for_measurement_def go_band_0000 or_raise_def reading_simps london_simps)

lemma go_store_0000:
  "store_series london_night [] ''electricity'' [reading_0000] go_tariff =
     (None, [\<lparr>measurement = ''electricity'',
              tags = [''active_rate'' \<mapsto> ''unit_rate_high'', ''time_of_day'' \<mapsto> ''23:30''],
              time = ''2020-06-01T00:30:00+01:00'',
              point_fields = [''consumption'' \<mapsto> 1 / 2, ''cost'' \<mapsto> 3 / 20, ''total_cost'' \<mapsto> 13 / 20]\<rparr>])"
  by (simp add: store_series_def measurements_def get_agile_data_def go_tariff_simps
        go_tags_0000 go_fields_0000 write_points_def reading_simps)

lemma rate_simps:
  "valid_from rate_2300 = ''2020-05-31T23:00:00Z''"
  "valid_to rate_2300 = ''2020-05-31T23:30:00Z''"
  "value_inc_vat rate_2300 = 7"
  "valid_from rate_2330 = ''2020-05-31T23:30:00Z''"
  "valid_to rate_2330 = ''2020-06-01T00:00:00Z''"
  "value_inc_vat rate_2330 = 9"
  by (simp_all add: rate_2300_def rate_2330_def)

lemma agile_rates_to_simps:
  "agile_rates_to [rate_2300, rate_2330] ''2020-05-31T23:30:00Z'' = Some 7"
  "agile_rates_to [rate_2300, rate_2330] ''2020-06-01T00:00:00Z'' = Some 9"
  "agile_rates_to [rate_2330] ''2020-05-31T23:30:00Z'' = None"
  "agile_rates_to [rate_2330] ''2020-06-01T00:00:00Z'' = Some 9"
  by (simp_all add: agile_rates_to_def dict_of_def rate_simps)

lemma go_agile_fields_0000:
  "fields_for_measurement london_night ''electricity'' go_tariff [rate_2300, rate_2330] reading_0000 =
     Inr ([''consumption'' \<mapsto> 1 / 2, ''cost'' \<mapsto> 3 / 20, ''total_cost'' \<mapsto> 13 / 20] ++
          [''agile_rate'' \<mapsto> 7, ''agile_cost'' \<mapsto> 7 / 2, ''agile_total_cost'' \<mapsto> 63 / 16])"
  by (simp add: fields_for_measurement_def go_band_0000 getitem_def or_raise_def go_tariff_simps
        reading_simps london_simps agile_rates_to_simps)

lemma overnight_tariff_simps:
  "overnight_tariff ''unit_rate_low_start'' = Some (Str ''23:30'')"
  "overnight_tariff ''unit_rate_low_end'' = Some (Str ''05:30'')"
  "overnight_tariff ''unit_rate_low_zone'' = Some (Str ''Europe/London'')"
  by (simp_all add: overnight_tariff_def go_tariff_simps)

lemma no_low_zone_high:
  assumes "series \<noteq> ''gas''" and "rate_data ''unit_rate_low_zone'' = Some z" and "\<not> truthy z"
  shows "active_rate_field L series rate_data m = Inr ''unit_rate_high''"
  using assms by (simp add: active_rate_field_def getitem_def)

lemma gas_unit_rate: "active_rate_field L ''gas'' rate_data m = Inr ''unit_rate''"
  by (simp add: active_rate_field_def)

lemma active_rate_field_range:
  assumes "active_rate_field L series rate_data m = Inr rate"
  shows "rate = ''unit_rate'' \<or> rate = ''unit_rate_high'' \<or> rate = ''unit_rate_low''"
  using assms
  by (auto simp: active_rate_field_def and_then_eq_Inr split: if_splits)

lemma tags_for_measurement_Inr:
  assumes "tags_for_measurement L series rate_data m = Inr tg"
  shows "\<exists>end_at band tod.
           maya_parse L (interval_end m) = Some end_at \<and>
           maya_strftime L end_at None ''%H:%M'' = Some tod \<and>
           active_rate_field L series rate_data m = Inr band \<and>
           tg = [''active_rate'' \<mapsto> band, ''time_of_day'' \<mapsto> tod]"
  using assms
  by (auto simp: tags_for_measurement_def and_then_eq_Inr or_raise_eq_Inr)

lemma gap_tariff_simps:
  "gap_tariff ''standing_charge'' = Some (Num 24)"
  "gap_tariff ''unit_rate_high'' = Some (Num (3 / 10))"
  "gap_tariff ''unit_rate_low'' = Some (Num (1 / 20))"
  "gap_tariff ''unit_rate_low_start'' = Some (Str ''00:30'')"
  "gap_tariff ''unit_rate_low_end'' = Some (Str ''04:30'')"
  "gap_tariff ''unit_rate_low_zone'' = Some (Str ''Europe/London'')"
  "gap_tariff ''agile_standing_charge'' = Some (Num 21)"
  "gap_tariff ''agile_unit_rates'' = Some (Rates [rate_2330])"
  by (simp_all add: gap_tariff_def go_tariff_simps)

lemma gap_band_0000:
  "active_rate_field london_night ''electricity'' gap_tariff reading_0000 = Inr ''unit_rate_high''"
  by (simp add: active_rate_field_def low_band_instant_def getitem_def or_raise_def
        MayaInterval_def contains_dt_def gap_tariff_simps reading_simps london_simps)

lemma gap_band_0030:
  "active_rate_field london_night ''electricity'' gap_tariff reading_0030 = Inr ''unit_rate_low''"
  by (simp add: active_rate_field_def low_band_instant_def getitem_def or_raise_def
        MayaInterval_def contains_dt_def gap_tariff_simps reading_simps london_simps)

lemma gap_tags:
  "tags_for_measurement london_night ''electricity'' gap_tariff reading_0000 =
     Inr [''active_rate'' \<mapsto> ''unit_rate_high'', ''time_of_day'' \<mapsto> ''23:30'']"
  "tags_for_measurement london_night ''electricity'' gap_tariff reading_0030 =
     Inr [''active_rate'' \<mapsto> ''unit_rate_low'', ''time_of_day'' \<mapsto> ''00:00'']"
  by (simp_all add: tags_for_measurement_def gap_band_0000 gap_band_0030 or_raise_def
        reading_simps london_simps)

lemma gap_fields_0000:
  "fields_for_measurement london_night ''electricity'' gap_tariff [rate_2330] reading_0000 =
     Inr ([''consumption'' \<mapsto> 1 / 2, ''cost'' \<mapsto> 3 / 20, ''total_cost'' \<mapsto> 13 / 20] ++
          [''agile_rate'' \<mapsto> 3 / 10, ''agile_cost'' \<mapsto> 3 / 20, ''agile_total_cost'' \<mapsto> 47 / 80])"
  by (simp add: fields_for_measurement_def gap_band_0000 getitem_def or_raise_def gap_tariff_simps
        reading_simps london_simps agile_rates_to_simps Let_def)

lemma gap_fields_0030:
  "fields_for_measurement london_night ''electricity'' gap_tariff [rate_2330] reading_0030 =
     Inr ([''consumption'' \<mapsto> 1 / 4, ''cost'' \<mapsto> 1 / 80, ''total_cost'' \<mapsto> 41 / 80] ++
          [''agile_rate'' \<mapsto> 9, ''agile_cost'' \<mapsto> 9 / 4, ''agile_total_cost'' \<mapsto> 43 / 16])"
  by (simp add: fields_for_measurement_def gap_band_0030 getitem_def or_raise_def gap_tariff_simps
        reading_simps london_simps agile_rates_to_simps Let_def)

lemma gap_store:
  "store_series london_night [] ''electricity'' [reading_0000, reading_0030] gap_tariff =
     (None,
      [\<lparr>measurement = ''electricity'',
        tags = [''active_rate'' \<mapsto> ''unit_rate_high'', ''time_of_day'' \<mapsto> ''23:30''],
        time = ''2020-06-01T00:30:00+01:00'',
        point_fields =
          [''consumption'' \<mapsto> 1 / 2, ''cost'' \<mapsto> 3 / 20, ''total_cost'' \<mapsto> 13 / 20] ++
          [''agile_rate'' \<mapsto> 3 / 10, ''agile_cost'' \<mapsto> 3 / 20, ''agile_total_cost'' \<mapsto> 47 / 80]\<rparr>,
       \<lparr>measurement = ''electricity'',
        tags = [''active_rate'' \<mapsto> ''unit_rate_low'', ''time_of_day'' \<mapsto> ''00:00''],
        time = ''2020-06-01T01:00:00+01:00'',
        point_fields =
          [''consumption'' \<mapsto> 1 / 4, ''cost'' \<mapsto> 1 / 80, ''total_cost'' \<mapsto> 41 / 80] ++
          [''agile_rate'' \<mapsto> 9, ''agile_cost'' \<mapsto> 9 / 4, ''agile_total_cost'' \<mapsto> 43 / 16]\<rparr>])"
  by (simp add: store_series_def measurements_def get_agile_data_def gap_tariff_simps
        gap_tags gap_fields_0000 gap_fields_0030 write_points_def reading_simps)

lemma gap_store_hit:
  "fst (store_series london_night [] ''electricity'' [reading_0030, reading_0030] gap_tariff) = None"
  by (simp add: store_series_def measurements_def get_agile_data_def gap_tariff_simps
        gap_tags gap_fields_0030 write_points_def reading_simps)

lemma point_of_own_interval:
  assumes "store_series L connection series metrics rate_data = (None, written)"
    and "store_series L connection series metrics' rate_data = (None, written')"
    and "j < length metrics" and "j < length metrics'" and "metrics' ! j = metrics ! j"
  shows "written' ! (length connection + j) = written ! (length connection + j)"
proof -
  from store_series_written [OF assms(1)] obtain pts where
    ms: "measurements L series metrics rate_data = Inr pts" and w: "written = connection @ pts"
    by blast
  from store_series_written [OF assms(2)] obtain pts' where
    ms': "measurements L series metrics' rate_data = Inr pts'" and w': "written' = connection @ pts'"
    by blast
  from measurements_Inr [OF ms] assms(3) obtain agile tg fl where
    ag: "get_agile_data rate_data = Inr agile"
    and tg: "tags_for_measurement L series rate_data (metrics ! j) = Inr tg"
    and fl: "fields_for_measurement L series rate_data agile (metrics ! j) = Inr fl"
    and pt: "pts ! j = \<lparr>measurement = series, tags = tg,
                         time = interval_end (metrics ! j), point_fields = fl\<rparr>"
    by blast
  from measurements_Inr [OF ms'] assms(4) obtain agile' tg' fl' where
    ag': "get_agile_data rate_data = Inr agile'"
    and tg': "tags_for_measurement L series rate_data (metrics' ! j) = Inr tg'"
    and fl': "fields_for_measurement L series rate_data agile' (metrics' ! j) = Inr fl'"
    and pt': "pts' ! j = \<lparr>measurement = series, tags = tg',
                         time = interval_end (metrics' ! j), point_fields = fl'\<rparr>"
    by blast
  from ag ag' have "agile' = agile" by simp
  with tg tg' fl fl' assms(5) have "tg' = tg" "fl' = fl" by simp_all
  with pt pt' assms(5) w w' show ?thesis by simp
qed

lemma local_tariff_simps:
  "local_tariff ''standing_charge'' = Some (Num 24)"
  "local_tariff ''unit_rate_high'' = Some (Num (3 / 10))"
  "local_tariff ''unit_rate_low'' = Some (Num (1 / 20))"
  "local_tariff ''unit_rate_low_start'' = Some (Str ''00:30'')"
  "local_tariff ''unit_rate_low_end'' = Some (Str ''04:30'')"
  "local_tariff ''unit_rate_low_zone'' = Some (Str ''Europe/London'')"
  "local_tariff ''agile_standing_charge'' = Some (Num 21)"
  "local_tariff ''agile_unit_rates'' = Some (Rates [rate_0000_local])"
  by (simp_all add: local_tariff_def go_tariff_simps)

lemma reading_utc_simps:
  "interval_start reading_utc = ''2020-05-31T23:00:00Z''"
  "interval_end reading_utc = ''2020-05-31T23:30:00Z''"
  "consumption reading_utc = 1 / 2"
  by (simp_all add: reading_utc_def)

lemma rate_0000_local_simps:
  "valid_from rate_0000_local = ''2020-06-01T00:00:00+01:00''"
  "valid_to rate_0000_local = ''2020-06-01T00:30:00+01:00''"
  "value_inc_vat rate_0000_local = 7"
  by (simp_all add: rate_0000_local_def)

lemma local_band_utc:
  "active_rate_field london_night ''electricity'' local_tariff reading_utc = Inr ''unit_rate_high''"
  by (simp add: active_rate_field_def low_band_instant_def getitem_def or_raise_def
        MayaInterval_def contains_dt_def local_tariff_simps reading_utc_simps london_simps)

lemma local_tags_utc:
  "tags_for_measurement london_night ''electricity'' local_tariff reading_utc =
     Inr [''active_rate'' \<mapsto> ''unit_rate_high'', ''time_of_day'' \<mapsto> ''23:30'']"
  by (simp add: tags_for_measurement_def local_band_utc or_raise_def reading_utc_simps london_simps)

lemma local_index_miss:
  "agile_rates_to [rate_0000_local] ''2020-05-31T23:30:00Z'' = None"
  by (simp add: agile_rates_to_def dict_of_def rate_0000_local_simps)

lemma local_fields_utc:
  "fields_for_measurement london_night ''electricity'' local_tariff [rate_0000_local] reading_utc =
     Inr ([''consumption'' \<mapsto> 1 / 2, ''cost'' \<mapsto> 3 / 20, ''total_cost'' \<mapsto> 13 / 20] ++
          [''agile_rate'' \<mapsto> 3 / 10, ''agile_cost'' \<mapsto> 3 / 20, ''agile_total_cost'' \<mapsto> 47 / 80])"
  by (simp add: fields_for_measurement_def local_band_utc getitem_def or_raise_def local_tariff_simps
        reading_utc_simps london_simps local_index_miss Let_def)

lemma local_store_utc:
  "store_series london_night [] ''electricity'' [reading_utc] local_tariff =
     (None,
      [\<lparr>measurement = ''electricity'',
        tags = [''active_rate'' \<mapsto> ''unit_rate_high'', ''time_of_day'' \<mapsto> ''23:30''],
        time = ''2020-05-31T23:30:00Z'',
        point_fields =
          [''consumption'' \<mapsto> 1 / 2, ''cost'' \<mapsto> 3 / 20, ''total_cost'' \<mapsto> 13 / 20] ++
          [''agile_rate'' \<mapsto> 3 / 10, ''agile_cost'' \<mapsto> 3 / 20, ''agile_total_cost'' \<mapsto> 47 / 80]\<rparr>])"
  by (simp add: store_series_def measurements_def get_agile_data_def local_tariff_simps
        local_tags_utc local_fields_utc write_points_def reading_utc_simps)

lemma dom_dict_of: "dom (dict_of kvs) = fst ` set kvs"
  by (simp add: dict_of_def dom_map_of_conv_image_fst)

lemma agile_fields_for_measurement_Inr:
  assumes "agile_fields_for_measurement L agile_rates m = Inr fl"
  shows "\<exists>from_at to_at.
           maya_parse L (valid_from m) = Some from_at \<and> maya_parse L (valid_to m) = Some to_at \<and>
           fl = [''agile_rate_prev'' \<mapsto> agile_rates_with_from_dates agile_rates (maya_iso8601 L from_at),
                 ''agile_rate_next'' \<mapsto> agile_rates_with_from_dates agile_rates (maya_iso8601 L to_at)]"
  using assms
  by (auto simp: agile_fields_for_measurement_def and_then_eq_Inr or_raise_eq_Inr Let_def)

lemma agile_store_series_written:
  assumes "agile_store_series L connection series agile_rates = (None, written)"
    and "i < length agile_rates"
  shows "\<exists>fl. agile_fields_for_measurement L agile_rates (agile_rates ! i) = Inr fl \<and>
           written ! (length connection + i) =
             \<lparr>measurement = series, tags = Map.empty, time = valid_to (agile_rates ! i),
              point_fields = fl\<rparr>"
proof -
  from assms(1) obtain pts where
    ms: "agile_measurements L series agile_rates = Inr pts" and w: "written = connection @ pts"
    by (auto simp: agile_store_series_def write_points_def split: if_splits sum.splits)
  from ms have l2: "list_all2 (\<lambda>m y.
       and_then (agile_fields_for_measurement L agile_rates m) (\<lambda>fl.
       Inr \<lparr>measurement = series, tags = Map.empty, time = valid_to m, point_fields = fl\<rparr>) = Inr y)
       agile_rates pts"
    unfolding agile_measurements_def by (rule map_raise_Inr)
  from list_all2_nthD [OF l2 assms(2)] have
    "and_then (agile_fields_for_measurement L agile_rates (agile_rates ! i)) (\<lambda>fl.
       Inr \<lparr>measurement = series, tags = Map.empty, time = valid_to (agile_rates ! i),
            point_fields = fl\<rparr>) = Inr (pts ! i)"
    by simp
  then obtain fl where "agile_fields_for_measurement L agile_rates (agile_rates ! i) = Inr fl"
    and "pts ! i = \<lparr>measurement = series, tags = Map.empty, time = valid_to (agile_rates ! i),
            point_fields = fl\<rparr>"
    by (auto simp: and_then_eq_Inr)
  with w show ?thesis by simp
qed

lemma from_dates_simps:
  "agile_rates_with_from_dates [rate_2300, rate_2330] ''2020-05-31T23:00:00Z'' = Some 7"
  "agile_rates_with_from_dates [rate_2300, rate_2330] ''2020-05-31T23:30:00Z'' = Some 9"
  "agile_rates_with_from_dates [rate_2300, rate_2330] ''2020-06-01T00:00:00Z'' = None"
  "agile_rates_with_from_dates [rate_0000_local] ''2020-05-31T23:00:00Z'' = None"
  "agile_rates_with_from_dates [rate_0000_local] ''2020-05-31T23:30:00Z'' = None"
  by (simp_all add: agile_rates_with_from_dates_def dict_of_def rate_simps rate_0000_local_simps)

lemma night_rates_stored:
  "agile_store_series london_night [] ''electricity'' [rate_2300, rate_2330] =
     (None,
      [\<lparr>measurement = ''electricity'', tags = Map.empty, time = ''2020-05-31T23:30:00Z'',
        point_fields = [''agile_rate_prev'' \<mapsto> Some 7, ''agile_rate_next'' \<mapsto> Some 9]\<rparr>,
       \<lparr>measurement = ''electricity'', tags = Map.empty, time = ''2020-06-01T00:00:00Z'',
        point_fields = [''agile_rate_prev'' \<mapsto> Some 9, ''agile_rate_next'' \<mapsto> None]\<rparr>])"
  by (simp add: agile_store_series_def agile_measurements_def agile_fields_for_measurement_def
        or_raise_def write_points_def rate_simps london_simps from_dates_simps)

lemma local_rates_stored:
  "agile_store_series london_night [] ''electricity'' [rate_0000_local] =
     (None,
      [\<lparr>measurement = ''electricity'', tags = Map.empty, time = ''2020-06-01T00:30:00+01:00'',
        point_fields = [''agile_rate_prev'' \<mapsto> None, ''agile_rate_next'' \<mapsto> None]\<rparr>])"
  by (simp add: agile_store_series_def agile_measurements_def agile_fields_for_measurement_def
        or_raise_def write_points_def rate_0000_local_simps london_simps from_dates_simps)

lemma backwards_tariff_simps:
  "backwards_tariff ''standing_charge'' = Some (Num 24)"
  "backwards_tariff ''unit_rate_high'' = Some (Num (3 / 10))"
  "backwards_tariff ''unit_rate_low_start'' = Some (Str ''00:30'')"
  "backwards_tariff ''unit_rate_low_end'' = Some (Str ''04:30'')"
  "backwards_tariff ''unit_rate_low_zone'' = Some (Str ''Europe/London'')"
  "backwards_tariff ''agile_standing_charge'' = Some (Num 21)"
  "backwards_tariff ''agile_unit_rates'' = Some (Rates [rate_backwards])"
  by (simp_all add: backwards_tariff_def go_tariff_simps)

lemma reading_hour_simps:
  "interval_start reading_hour = ''2020-06-01T00:00:00+01:00''"
  "interval_end reading_hour = ''2020-06-01T01:00:00+01:00''"
  "consumption reading_hour = 1"
  by (simp_all add: reading_hour_def)

lemma rate_backwards_simps:
  "valid_from rate_backwards = ''2020-06-01T00:00:00Z''"
  "valid_to rate_backwards = ''2020-05-31T23:30:00Z''"
  "value_inc_vat rate_backwards = 9"
  by (simp_all add: rate_backwards_def)

lemma backwards_band:
  "active_rate_field london_night ''electricity'' backwards_tariff reading_hour = Inr ''unit_rate_high''"
  by (simp add: active_rate_field_def low_band_instant_def getitem_def or_raise_def
        MayaInterval_def contains_dt_def backwards_tariff_simps reading_hour_simps london_simps)

lemma backwards_tags:
  "tags_for_measurement london_night ''electricity'' backwards_tariff reading_hour =
     Inr [''active_rate'' \<mapsto> ''unit_rate_high'', ''time_of_day'' \<mapsto> ''00:00'']"
  by (simp add: tags_for_measurement_def backwards_band or_raise_def reading_hour_simps london_simps)

lemma backwards_fields:
  "fields_for_measurement london_night ''electricity'' backwards_tariff [rate_backwards] reading_hour =
     Inr ([''consumption'' \<mapsto> 1, ''cost'' \<mapsto> 3 / 10, ''total_cost'' \<mapsto> 4 / 5] ++
          [''agile_rate'' \<mapsto> 3 / 10, ''agile_cost'' \<mapsto> 3 / 10, ''agile_total_cost'' \<mapsto> 59 / 80])"
  by (simp add: fields_for_measurement_def backwards_band getitem_def or_raise_def
        backwards_tariff_simps reading_hour_simps london_simps agile_rates_to_def dict_of_def
        rate_backwards_simps Let_def)

lemma backwards_store:
  "store_series london_night [] ''electricity'' [reading_hour] backwards_tariff =
     (None,
      [\<lparr>measurement = ''electricity'',
        tags = [''active_rate'' \<mapsto> ''unit_rate_high'', ''time_of_day'' \<mapsto> ''00:00''],
        time = ''2020-06-01T01:00:00+01:00'',
        point_fields =
          [''consumption'' \<mapsto> 1, ''cost'' \<mapsto> 3 / 10, ''total_cost'' \<mapsto> 4 / 5] ++
          [''agile_rate'' \<mapsto> 3 / 10, ''agile_cost'' \<mapsto> 3 / 10, ''agile_total_cost'' \<mapsto> 59 / 80]\<rparr>])"
  by (simp add: store_series_def measurements_def get_agile_data_def backwards_tariff_simps
        backwards_tags backwards_fields write_points_def reading_hour_simps)

lemma active_rate_field_flat:
  assumes "series = ''gas'' \<or> (\<exists>z. rate_data ''unit_rate_low_zone'' = Some z \<and> \<not> truthy z)"
  shows "active_rate_field L series rate_data (m\<lparr>interval_start := s\<rparr>) =
         active_rate_field L series rate_data m"
  using assms by (auto simp: active_rate_field_def getitem_def)

lemma active_rate_field_other_key:
  "active_rate_field L series (rate_data(''agile_unit_rates'' \<mapsto> v)) m =
   active_rate_field L series rate_data m"
  by (simp add: active_rate_field_def getitem_def cong: if_cong)

lemma tags_for_measurement_other_key:
  "tags_for_measurement L series (rate_data(''agile_unit_rates'' \<mapsto> v)) m =
   tags_for_measurement L series rate_data m"
  by (simp add: tags_for_measurement_def active_rate_field_other_key)

lemma agile_rates_to_valid_from:
  "agile_rates_to (map (\<lambda>point. point\<lparr>valid_from := new_from point\<rparr>) schedule) =
   agile_rates_to schedule"
  by (simp add: agile_rates_to_def comp_def)

lemma fields_for_measurement_valid_from:
  "fields_for_measurement L series (rate_data(''agile_unit_rates'' \<mapsto> v))
     (map (\<lambda>point. point\<lparr>valid_from := new_from point\<rparr>) schedule) m =
   fields_for_measurement L series rate_data schedule m"
proof (cases "active_rate_field L series rate_data m")
  case (Inl e)
  then show ?thesis
    by (simp add: fields_for_measurement_def active_rate_field_other_key)
next
  case (Inr rate)
  from active_rate_field_range [OF Inr]
  have rate: "getitem (rate_data(''agile_unit_rates'' \<mapsto> v)) rate = getitem rate_data rate"
    by (auto simp: getitem_def)
  have other: "getitem (rate_data(''agile_unit_rates'' \<mapsto> v)) ''standing_charge'' =
        getitem rate_data ''standing_charge''"
      "getitem (rate_data(''agile_unit_rates'' \<mapsto> v)) ''agile_standing_charge'' =
        getitem rate_data ''agile_standing_charge''"
    by (simp_all add: getitem_def)
  show ?thesis
    unfolding fields_for_measurement_def active_rate_field_other_key Inr and_then_Inr
      rate other agile_rates_to_valid_from
    by simp
qed

lemma tags_for_measurement_flat:
  assumes "series = ''gas'' \<or> (\<exists>z. rate_data ''unit_rate_low_zone'' = Some z \<and> \<not> truthy z)"
  shows "tags_for_measurement L series rate_data (m\<lparr>interval_start := s\<rparr>) =
         tags_for_measurement L series rate_data m"
  using assms by (simp add: tags_for_measurement_def active_rate_field_flat)

lemma fields_for_measurement_flat:
  assumes "series = ''gas'' \<or> (\<exists>z. rate_data ''unit_rate_low_zone'' = Some z \<and> \<not> truthy z)"
  shows "fields_for_measurement L series rate_data agile_data (m\<lparr>interval_start := s\<rparr>) =
         fields_for_measurement L series rate_data agile_data m"
proof -
  have "active_rate_field L series rate_data (m\<lparr>interval_start := s\<rparr>) =
        active_rate_field L series rate_data m"
    using assms by (auto simp: active_rate_field_def getitem_def)
  then show ?thesis
    unfolding fields_for_measurement_def by (simp cong: if_cong)
qed

lemma measurements_flat:
  assumes "series = ''gas'' \<or> (\<exists>z. rate_data ''unit_rate_low_zone'' = Some z \<and> \<not> truthy z)"
  shows "measurements L series (map (\<lambda>m. m\<lparr>interval_start := new_start m\<rparr>) metrics) rate_data =
         measurements L series metrics rate_data"
  using assms
  by (simp add: measurements_def map_raise_map tags_for_measurement_flat
        fields_for_measurement_flat)

lemma measurements_valid_from:
  assumes "rate_data ''agile_unit_rates'' = Some (Rates schedule)"
  shows "measurements L series metrics
           (rate_data(''agile_unit_rates'' \<mapsto>
              Rates (map (\<lambda>point. point\<lparr>valid_from := new_from point\<rparr>) schedule))) =
         measurements L series metrics rate_data"
  using assms
  by (simp add: measurements_def get_agile_data_def tags_for_measurement_other_key
        fields_for_measurement_valid_from)

lemma instant_miss_is_key_miss:
  \<comment> \<open>With a library whose parser reads back what \<open>iso8601\<close> writes, a schedule without an
     entry ending at an instant has no entry under the key looked up for that instant.\<close>
  assumes "maya_parse L (maya_iso8601 L end_at) = Some end_at"
    and "\<forall>point \<in> set agile_data. maya_parse L (valid_to point) \<noteq> Some end_at"
  shows "\<forall>point \<in> set agile_data. valid_to point \<noteq> maya_iso8601 L end_at"
  using assms by metis

lemma tags_for_measurement_same_band:
  assumes "active_rate_field L series rate_data m' = active_rate_field L series rate_data m"
    and "interval_end m' = interval_end m"
  shows "tags_for_measurement L series rate_data m' = tags_for_measurement L series rate_data m"
  using assms by (simp add: tags_for_measurement_def)

lemma fields_for_measurement_same_band:
  assumes "active_rate_field L series rate_data m' = active_rate_field L series rate_data m"
    and "interval_end m' = interval_end m" and "consumption m' = consumption m"
  shows "fields_for_measurement L series rate_data agile_data m' =
         fields_for_measurement L series rate_data agile_data m"
  using assms unfolding fields_for_measurement_def by (simp cong: if_cong)

lemma measurements_same_band:
  assumes "\<forall>m \<in> set metrics.
             active_rate_field L series rate_data (m\<lparr>interval_start := new_start m\<rparr>) =
             active_rate_field L series rate_data m"
  shows "measurements L series (map (\<lambda>m. m\<lparr>interval_start := new_start m\<rparr>) metrics) rate_data =
         measurements L series metrics rate_data"
proof -
  have "and_then (tags_for_measurement L series rate_data (m\<lparr>interval_start := new_start m\<rparr>)) (\<lambda>tg.
          and_then (fields_for_measurement L series rate_data agile_data
                      (m\<lparr>interval_start := new_start m\<rparr>)) (\<lambda>fl.
          Inr \<lparr>measurement = series, tags = tg,
               time = interval_end (m\<lparr>interval_start := new_start m\<rparr>), point_fields = fl\<rparr>)) =
        and_then (tags_for_measurement L series rate_data m) (\<lambda>tg.
          and_then (fields_for_measurement L series rate_data agile_data m) (\<lambda>fl.
          Inr \<lparr>measurement = series, tags = tg, time = interval_end m, point_fields = fl\<rparr>))"
    if "m \<in> set metrics" for m agile_data
  proof -
    from assms that have band:
      "active_rate_field L series rate_data (m\<lparr>interval_start := new_start m\<rparr>) =
       active_rate_field L series rate_data m"
      by blast
    have "tags_for_measurement L series rate_data (m\<lparr>interval_start := new_start m\<rparr>) =
          tags_for_measurement L series rate_data m"
      using band by (rule tags_for_measurement_same_band) simp
    moreover have "fields_for_measurement L series rate_data agile_data
          (m\<lparr>interval_start := new_start m\<rparr>) =
          fields_for_measurement L series rate_data agile_data m"
      using band by (rule fields_for_measurement_same_band) simp_all
    ultimately show ?thesis by simp
  qed
  then show ?thesis
    unfolding measurements_def map_raise_map
    by (auto intro!: arg_cong [where f = "and_then (get_agile_data rate_data)"] map_raise_cong)
qed

lemma london_day_0100:
  "maya_strftime london_night 1590969600 (Some ''Europe/London'') ''%Y-%m-%dT00:30'' = Some ''2020-06-01T00:30''"
  "maya_strftime london_night 1590969600 (Some ''Europe/London'') ''%Y-%m-%dT04:30'' = Some ''2020-06-01T04:30''"
  by (simp_all add: london_night_def london_strftime_def)

lemma go_band_zero_length:
  "active_rate_field london_night ''electricity'' go_tariff
     (reading_0030\<lparr>interval_start := interval_end reading_0030\<rparr>) = Inr ''unit_rate_low''"
  by (simp add: active_rate_field_def low_band_instant_def getitem_def or_raise_def
        MayaInterval_def contains_dt_def go_tariff_simps reading_simps london_simps london_day_0100)

section \<open>The claims\<close>

text \<open>
  C1. Whenever \<^verbatim>\<open>store_series\<close> writes its points, the point of the \<open>i\<close>-th interval, with
  consumption \<open>c\<close>, whose band resolves to a configured unit price \<open>p\<close>, under a standing
  charge \<open>s\<close>, has \<open>cost = c * p\<close>, the product as the numeric type computes it, and
  \<open>total_cost = cost + s / 48\<close>.
\<close>

theorem cost_and_total_cost:
  assumes "store_series L connection series metrics rate_data = (None, written)"
    and "i < length metrics"
    and "active_rate_field L series rate_data (metrics ! i) = Inr rate"
    and "rate_data rate = Some (Num p)"
    and "rate_data ''standing_charge'' = Some (Num s)"
  shows "point_fields (written ! (length connection + i)) ''cost'' =
           Some (consumption (metrics ! i) * p) \<and>
         point_fields (written ! (length connection + i)) ''total_cost'' =
           Some (consumption (metrics ! i) * p + s / 48)"
proof -
  from store_series_written [OF assms(1)] obtain pts where
    ms: "measurements L series metrics rate_data = Inr pts" and w: "written = connection @ pts"
    by blast
  from measurements_Inr [OF ms] assms(2) obtain agile tg fl where
    fl: "fields_for_measurement L series rate_data agile (metrics ! i) = Inr fl"
    and pt: "pts ! i = \<lparr>measurement = series, tags = tg,
                         time = interval_end (metrics ! i), point_fields = fl\<rparr>"
    by blast
  from fields_for_measurement_Inr [OF fl] assms(3-5) have
    "fl ''cost'' = Some (consumption (metrics ! i) * p) \<and>
     fl ''total_cost'' = Some (consumption (metrics ! i) * p + s / 48)"
    by (cases "agile = []") auto
  with w pt show ?thesis by simp
qed

theorem cost_and_total_cost_witness:
  "store_series london_night [] ''electricity'' [reading_0000] go_tariff =
     (None, snd (store_series london_night [] ''electricity'' [reading_0000] go_tariff)) \<and>
   active_rate_field london_night ''electricity'' go_tariff ([reading_0000] ! 0) = Inr ''unit_rate_high'' \<and>
   point_fields (snd (store_series london_night [] ''electricity'' [reading_0000] go_tariff) ! 0)
     ''cost'' = Some (3 / 20) \<and>
   point_fields (snd (store_series london_night [] ''electricity'' [reading_0000] go_tariff) ! 0)
     ''total_cost'' = Some (13 / 20)"
proof -
  have run: "store_series london_night [] ''electricity'' [reading_0000] go_tariff =
     (None, snd (store_series london_night [] ''electricity'' [reading_0000] go_tariff))"
    by (simp add: go_store_0000)
  have band: "active_rate_field london_night ''electricity'' go_tariff ([reading_0000] ! 0) =
     Inr ''unit_rate_high''"
    by (simp add: go_band_0000)
  from cost_and_total_cost [OF run _ band, of "3 / 10" 24] run band show ?thesis
    by (simp add: go_tariff_simps reading_simps)
qed

text \<open>
  C2, as the code has it. The index of the agile rates is keyed by the \<^verbatim>\<open>valid_to\<close>
  texts exactly as they arrive; only the key looked up is normalised, to the ISO-8601
  rendering of the interval's end instant. So whatever text the interval's end is written
  in, the lookup finds the entry whose \<^verbatim>\<open>valid_to\<close> text is that rendering (the last such
  entry, should several differ in value), and an entry written in any other way is not
  found.
\<close>

theorem agile_lookup_by_canonical_text:
  assumes "fields_for_measurement L series rate_data agile_data m = Inr fl"
    and "maya_parse L (interval_end m) = Some end_at"
    and "point \<in> set agile_data"
    and "valid_to point = maya_iso8601 L end_at"
    and "\<forall>other \<in> set agile_data.
           valid_to other = valid_to point \<longrightarrow> value_inc_vat other = value_inc_vat point"
  shows "dom (agile_rates_to agile_data) = valid_to ` set agile_data \<and>
         fl ''agile_rate'' = Some (value_inc_vat point)"
proof
  show "dom (agile_rates_to agile_data) = valid_to ` set agile_data"
    by (force simp: agile_rates_to_def dom_dict_of)
  from assms(3) have ne: "agile_data \<noteq> []" by auto
  have "(valid_to point, value_inc_vat point) \<in>
      set (map (\<lambda>point. (valid_to point, value_inc_vat point)) agile_data)"
    using assms(3) by auto
  moreover have "v' = value_inc_vat point"
    if "(valid_to point, v') \<in> set (map (\<lambda>point. (valid_to point, value_inc_vat point)) agile_data)"
    for v'
    using that assms(5) by auto
  ultimately have hit: "agile_rates_to agile_data (maya_iso8601 L end_at) = Some (value_inc_vat point)"
    unfolding agile_rates_to_def assms(4) [symmetric] by (rule dict_of_unique)
  from fields_for_measurement_Inr [OF assms(1)] ne assms(2) hit
  show "fl ''agile_rate'' = Some (value_inc_vat point)"
    by auto
qed

theorem agile_lookup_by_canonical_text_witness:
  "fields_for_measurement london_night ''electricity'' go_tariff [rate_2300, rate_2330] reading_0000 =
     Inr ([''consumption'' \<mapsto> 1 / 2, ''cost'' \<mapsto> 3 / 20, ''total_cost'' \<mapsto> 13 / 20] ++
          [''agile_rate'' \<mapsto> 7, ''agile_cost'' \<mapsto> 7 / 2, ''agile_total_cost'' \<mapsto> 63 / 16]) \<and>
   interval_end reading_0000 = ''2020-06-01T00:30:00+01:00'' \<and>
   valid_to rate_2300 = ''2020-05-31T23:30:00Z'' \<and>
   valid_to rate_2300 = maya_iso8601 london_night 1590967800 \<and>
   ([''consumption'' \<mapsto> 1 / 2, ''cost'' \<mapsto> 3 / 20, ''total_cost'' \<mapsto> 13 / (20::real)] ++
    [''agile_rate'' \<mapsto> 7, ''agile_cost'' \<mapsto> 7 / 2, ''agile_total_cost'' \<mapsto> 63 / 16]) ''agile_rate'' =
     Some (value_inc_vat rate_2300)"
proof -
  have at: "maya_parse london_night (interval_end reading_0000) = Some 1590967800"
    by (simp add: reading_simps london_simps)
  have mem: "rate_2300 \<in> set [rate_2300, rate_2330]" by simp
  have key: "valid_to rate_2300 = maya_iso8601 london_night 1590967800"
    by (simp add: rate_simps london_simps)
  have uniq: "\<forall>other \<in> set [rate_2300, rate_2330].
      valid_to other = valid_to rate_2300 \<longrightarrow> value_inc_vat other = value_inc_vat rate_2300"
    by (simp add: rate_simps)
  from agile_lookup_by_canonical_text [OF go_agile_fields_0000 at mem key uniq]
    go_agile_fields_0000 key
  show ?thesis by (simp add: reading_simps rate_simps)
qed

theorem schedule_text_not_normalised:
  "maya_parse london_night (interval_end reading_utc) =
     maya_parse london_night (valid_to rate_0000_local) \<and>
   get_agile_data local_tariff = Inr [rate_0000_local] \<and>
   fst (store_series london_night [] ''electricity'' [reading_utc] local_tariff) = None \<and>
   point_fields (snd (store_series london_night [] ''electricity'' [reading_utc] local_tariff) ! 0)
     ''agile_rate'' \<noteq> Some (value_inc_vat rate_0000_local)"
  by (simp add: local_store_utc get_agile_data_def local_tariff_simps reading_utc_simps
        rate_0000_local_simps london_simps)

text \<open>
  C3, as the code has it. For electricity with \<^verbatim>\<open>unit_rate_low_zone\<close>,
  \<^verbatim>\<open>unit_rate_low_start\<close> and \<^verbatim>\<open>unit_rate_low_end\<close> configured, let \<open>low_start\<close> and
  \<open>low_end\<close> be the instants which the calendar day of the interval's start in that zone,
  combined with the two clock times, denotes in that zone. When \<open>low_start \<le> low_end\<close> the
  interval is classified low exactly when \<open>low_start \<le> start < low_end\<close>, and high
  otherwise. When \<open>low_end < low_start\<close>, as for a band across midnight, the interval is
  not classified: \<^verbatim>\<open>MayaInterval\<close> raises.
\<close>

theorem low_band_half_open:
  assumes "series \<noteq> ''gas''"
    and "rate_data ''unit_rate_low_zone'' = Some (Str zone)" and "zone \<noteq> []"
    and "rate_data ''unit_rate_low_start'' = Some (Str low_start_str)"
    and "rate_data ''unit_rate_low_end'' = Some (Str low_end_str)"
    and "maya_parse L (interval_start m) = Some measurement_at"
    and "maya_strftime L measurement_at (Some zone) (''%Y-%m-%dT'' @ low_start_str) = Some day_start"
    and "maya_when L day_start zone = Some low_start"
    and "maya_strftime L measurement_at (Some zone) (''%Y-%m-%dT'' @ low_end_str) = Some day_end"
    and "maya_when L day_end zone = Some low_end"
  shows "(low_start \<le> low_end \<longrightarrow>
            active_rate_field L series rate_data m =
              Inr (if low_start \<le> measurement_at \<and> measurement_at < low_end
                   then ''unit_rate_low'' else ''unit_rate_high'')) \<and>
         (low_end < low_start \<longrightarrow>
            active_rate_field L series rate_data m =
              Inl (ValueError ''MayaInterval cannot end before it starts''))"
proof -
  have "active_rate_field L series rate_data m =
      and_then (MayaInterval low_start low_end) (\<lambda>low_period.
        Inr (if contains_dt low_period measurement_at then ''unit_rate_low''
             else ''unit_rate_high''))"
    using assms
    by (simp add: active_rate_field_def low_band_instant_def getitem_def or_raise_def)
  then show ?thesis
    by (auto simp: MayaInterval_def contains_dt_def)
qed

theorem low_band_half_open_witness:
  "active_rate_field london_night ''electricity'' go_tariff reading_0030 = Inr ''unit_rate_low'' \<and>
   active_rate_field london_night ''electricity'' go_tariff reading_0000 = Inr ''unit_rate_high'' \<and>
   active_rate_field london_night ''electricity'' overnight_tariff reading_0030 =
     Inl (ValueError ''MayaInterval cannot end before it starts'')"
proof -
  have low: "active_rate_field london_night ''electricity'' go_tariff reading_0030 = Inr ''unit_rate_low''"
    using low_band_half_open [of "''electricity''" go_tariff "''Europe/London''" "''00:30''" "''04:30''"
      london_night reading_0030 1590967800 "''2020-06-01T00:30''" 1590967800
      "''2020-06-01T04:30''" 1590982200]
    by (simp add: go_tariff_simps reading_simps london_simps)
  have high: "active_rate_field london_night ''electricity'' go_tariff reading_0000 = Inr ''unit_rate_high''"
    using low_band_half_open [of "''electricity''" go_tariff "''Europe/London''" "''00:30''" "''04:30''"
      london_night reading_0000 1590966000 "''2020-06-01T00:30''" 1590967800
      "''2020-06-01T04:30''" 1590982200]
    by (simp add: go_tariff_simps reading_simps london_simps)
  have raises: "active_rate_field london_night ''electricity'' overnight_tariff reading_0030 =
     Inl (ValueError ''MayaInterval cannot end before it starts'')"
    using low_band_half_open [of "''electricity''" overnight_tariff "''Europe/London''" "''23:30''" "''05:30''"
      london_night reading_0030 1590967800 "''2020-06-01T23:30''" 1591050600
      "''2020-06-01T05:30''" 1590985800]
    by (simp add: overnight_tariff_simps reading_simps london_simps)
  from low high raises show ?thesis by simp
qed

theorem band_across_midnight_raises:
  "active_rate_field london_night ''electricity'' overnight_tariff reading_0030 \<noteq>
     Inr (if (1591050600::int) \<le> 1590967800 \<and> (1590967800::int) < 1590985800
          then ''unit_rate_low'' else ''unit_rate_high'')"
  by (simp add: active_rate_field_def low_band_instant_def getitem_def or_raise_def
        MayaInterval_def overnight_tariff_simps reading_simps london_simps)

text \<open>
  C4. With a non-empty agile schedule of which no entry is indexed under the key looked
  up for an interval (the ISO-8601 rendering of its end instant; by
  \<open>instant_miss_is_key_miss\<close> that is the case of every schedule without an entry ending
  at that instant), \<^verbatim>\<open>fields_for_measurement\<close>
  returns, without raising, fields whose \<^verbatim>\<open>agile_rate\<close> is the static unit price \<open>p\<close>
  resolved for that interval, with \<^verbatim>\<open>agile_cost\<close> and \<^verbatim>\<open>agile_total_cost\<close> computed from it;
  these are the fields of the interval's point. The point of any other interval is
  the same in every batch that holds that interval, whether or not this lookup misses.
\<close>

theorem agile_miss_uses_static_rate:
  assumes "get_agile_data rate_data = Inr agile_data" and "agile_data \<noteq> []"
    and "i < length metrics"
    and "active_rate_field L series rate_data (metrics ! i) = Inr rate"
    and "rate_data rate = Some (Num p)"
    and "rate_data ''standing_charge'' = Some (Num s)"
    and "rate_data ''agile_standing_charge'' = Some (Num a)"
    and "maya_parse L (interval_end (metrics ! i)) = Some end_at"
    and "\<forall>point \<in> set agile_data. valid_to point \<noteq> maya_iso8601 L end_at"
  shows "fields_for_measurement L series rate_data agile_data (metrics ! i) =
           Inr ([''consumption'' \<mapsto> consumption (metrics ! i),
                 ''cost'' \<mapsto> consumption (metrics ! i) * p,
                 ''total_cost'' \<mapsto> consumption (metrics ! i) * p + s / 48] ++
                [''agile_rate'' \<mapsto> p,
                 ''agile_cost'' \<mapsto> p * consumption (metrics ! i),
                 ''agile_total_cost'' \<mapsto> p * consumption (metrics ! i) + a / 48]) \<and>
         (\<forall>written. store_series L connection series metrics rate_data = (None, written) \<longrightarrow>
            point_fields (written ! (length connection + i)) ''agile_rate'' = Some p \<and>
            (\<forall>metrics' written' j.
               store_series L connection series metrics' rate_data = (None, written') \<and>
               j < length metrics \<and> j < length metrics' \<and> metrics' ! j = metrics ! j \<longrightarrow>
               written' ! (length connection + j) = written ! (length connection + j)))"
proof (intro conjI allI impI)
  have miss: "agile_rates_to agile_data (maya_iso8601 L end_at) = None"
    using assms(9) by (auto simp: agile_rates_to_def dict_of_eq_None)
  show fl: "fields_for_measurement L series rate_data agile_data (metrics ! i) =
           Inr ([''consumption'' \<mapsto> consumption (metrics ! i),
                 ''cost'' \<mapsto> consumption (metrics ! i) * p,
                 ''total_cost'' \<mapsto> consumption (metrics ! i) * p + s / 48] ++
                [''agile_rate'' \<mapsto> p,
                 ''agile_cost'' \<mapsto> p * consumption (metrics ! i),
                 ''agile_total_cost'' \<mapsto> p * consumption (metrics ! i) + a / 48])"
    using assms(2,4-8) miss
    by (simp add: fields_for_measurement_def getitem_def or_raise_def Let_def)
  fix written
  assume run: "store_series L connection series metrics rate_data = (None, written)"
  from store_series_written [OF run] obtain pts where
    ms: "measurements L series metrics rate_data = Inr pts" and w: "written = connection @ pts"
    by blast
  from measurements_Inr [OF ms] assms(1,3) obtain tg fl' where
    fl': "fields_for_measurement L series rate_data agile_data (metrics ! i) = Inr fl'"
    and pt: "pts ! i = \<lparr>measurement = series, tags = tg,
                         time = interval_end (metrics ! i), point_fields = fl'\<rparr>"
    by auto
  from fl fl' pt w show "point_fields (written ! (length connection + i)) ''agile_rate'' = Some p"
    by simp
  fix metrics' written' j
  assume "store_series L connection series metrics' rate_data = (None, written') \<and>
               j < length metrics \<and> j < length metrics' \<and> metrics' ! j = metrics ! j"
  with point_of_own_interval [OF run, of metrics' written' j]
  show "written' ! (length connection + j) = written ! (length connection + j)"
    by simp
qed

theorem agile_miss_uses_static_rate_witness:
  "fields_for_measurement london_night ''electricity'' gap_tariff [rate_2330]
       ([reading_0000, reading_0030] ! 0) =
     Inr ([''consumption'' \<mapsto> consumption ([reading_0000, reading_0030] ! 0),
           ''cost'' \<mapsto> consumption ([reading_0000, reading_0030] ! 0) * (3 / 10),
           ''total_cost'' \<mapsto> consumption ([reading_0000, reading_0030] ! 0) * (3 / 10) + 24 / 48] ++
          [''agile_rate'' \<mapsto> 3 / 10,
           ''agile_cost'' \<mapsto> 3 / 10 * consumption ([reading_0000, reading_0030] ! 0),
           ''agile_total_cost'' \<mapsto> 3 / 10 * consumption ([reading_0000, reading_0030] ! 0) + 21 / 48]) \<and>
   point_fields (snd (store_series london_night [] ''electricity'' [reading_0000, reading_0030] gap_tariff) ! 0)
     ''agile_rate'' = Some (3 / 10) \<and>
   snd (store_series london_night [] ''electricity'' [reading_0030, reading_0030] gap_tariff) ! 1 =
   snd (store_series london_night [] ''electricity'' [reading_0000, reading_0030] gap_tariff) ! 1"
proof -
  have ag: "get_agile_data gap_tariff = Inr [rate_2330]"
    by (simp add: get_agile_data_def gap_tariff_simps)
  have band: "active_rate_field london_night ''electricity'' gap_tariff
      ([reading_0000, reading_0030] ! 0) = Inr ''unit_rate_high''"
    by (simp add: gap_band_0000)
  have at: "maya_parse london_night (interval_end ([reading_0000, reading_0030] ! 0)) = Some 1590967800"
    by (simp add: reading_simps london_simps)
  have miss: "\<forall>point \<in> set [rate_2330]. valid_to point \<noteq> maya_iso8601 london_night 1590967800"
    by (simp add: rate_simps london_simps)
  have run: "store_series london_night [] ''electricity'' [reading_0000, reading_0030] gap_tariff =
      (None, snd (store_series london_night [] ''electricity'' [reading_0000, reading_0030] gap_tariff))"
    by (simp add: gap_store)
  have run': "store_series london_night [] ''electricity'' [reading_0030, reading_0030] gap_tariff =
      (None, snd (store_series london_night [] ''electricity'' [reading_0030, reading_0030] gap_tariff))"
    using gap_store_hit by (simp add: prod_eq_iff)
  have ne: "[rate_2330] \<noteq> []" and len: "0 < length [reading_0000, reading_0030]"
    by simp_all
  note inst = agile_miss_uses_static_rate [where connection = "[]",
      OF ag ne len band gap_tariff_simps(2) gap_tariff_simps(1) gap_tariff_simps(7) at miss]
  note fl = inst [THEN conjunct1]
  note stored = inst [THEN conjunct2, rule_format, OF run]
  from stored have rate: "point_fields
      (snd (store_series london_night [] ''electricity'' [reading_0000, reading_0030] gap_tariff) ! 0)
      ''agile_rate'' = Some (3 / 10)"
    by simp
  note inner = stored [THEN conjunct2, rule_format, of "[reading_0030, reading_0030]"
      "snd (store_series london_night [] ''electricity'' [reading_0030, reading_0030] gap_tariff)" 1]
  from inner run' have other:
    "snd (store_series london_night [] ''electricity'' [reading_0030, reading_0030] gap_tariff) ! 1 =
     snd (store_series london_night [] ''electricity'' [reading_0000, reading_0030] gap_tariff) ! 1"
    by simp
  from fl rate other show ?thesis by blast
qed

text \<open>
  C5, as the code has it. In the rate-only script let a rate of the schedule have the
  value \<open>V\<close> and a \<^verbatim>\<open>valid_from\<close> text that is the ISO-8601 rendering of its own instant
  \<open>T0\<close>, no other rate with that \<^verbatim>\<open>valid_from\<close> text having another value. Then the point
  of that rate, which is emitted at its \<^verbatim>\<open>valid_to\<close>, has \<^verbatim>\<open>agile_rate_prev = V\<close>, and the
  point of every rate that ends at the instant \<open>T0\<close> has \<^verbatim>\<open>agile_rate_next = V\<close>.
\<close>

theorem rate_only_prev_and_next:
  assumes "agile_store_series L connection series agile_rates = (None, written)"
    and "i < length agile_rates"
    and "maya_parse L (valid_from (agile_rates ! i)) = Some t0"
    and "maya_iso8601 L t0 = valid_from (agile_rates ! i)"
    and "\<forall>other \<in> set agile_rates. valid_from other = valid_from (agile_rates ! i) \<longrightarrow>
           value_inc_vat other = value_inc_vat (agile_rates ! i)"
  shows "time (written ! (length connection + i)) = valid_to (agile_rates ! i) \<and>
         point_fields (written ! (length connection + i)) ''agile_rate_prev'' =
           Some (Some (value_inc_vat (agile_rates ! i))) \<and>
         (\<forall>j<length agile_rates. maya_parse L (valid_to (agile_rates ! j)) = Some t0 \<longrightarrow>
            time (written ! (length connection + j)) = valid_to (agile_rates ! j) \<and>
            point_fields (written ! (length connection + j)) ''agile_rate_next'' =
              Some (Some (value_inc_vat (agile_rates ! i))))"
proof -
  have mem: "agile_rates ! i \<in> set agile_rates"
    using assms(2) by (rule nth_mem)
  have "(valid_from (agile_rates ! i), value_inc_vat (agile_rates ! i)) \<in>
      set (map (\<lambda>point. (valid_from point, value_inc_vat point)) agile_rates)"
    by (simp only: set_map) (rule image_eqI [OF refl mem])
  moreover have "v' = value_inc_vat (agile_rates ! i)"
    if "(valid_from (agile_rates ! i), v') \<in>
          set (map (\<lambda>point. (valid_from point, value_inc_vat point)) agile_rates)" for v'
    using that assms(5) by auto
  ultimately have "agile_rates_with_from_dates agile_rates (valid_from (agile_rates ! i)) =
      Some (value_inc_vat (agile_rates ! i))"
    unfolding agile_rates_with_from_dates_def by (rule dict_of_unique)
  with assms(4) have hit: "agile_rates_with_from_dates agile_rates (maya_iso8601 L t0) =
      Some (value_inc_vat (agile_rates ! i))"
    by simp
  from agile_store_series_written [OF assms(1,2)] obtain fl where
    fl: "agile_fields_for_measurement L agile_rates (agile_rates ! i) = Inr fl"
    and pt: "written ! (length connection + i) =
             \<lparr>measurement = series, tags = Map.empty, time = valid_to (agile_rates ! i),
              point_fields = fl\<rparr>"
    by blast
  from agile_fields_for_measurement_Inr [OF fl] assms(3) hit
  have "fl ''agile_rate_prev'' = Some (Some (value_inc_vat (agile_rates ! i)))"
    by auto
  with pt have own: "time (written ! (length connection + i)) = valid_to (agile_rates ! i) \<and>
         point_fields (written ! (length connection + i)) ''agile_rate_prev'' =
           Some (Some (value_inc_vat (agile_rates ! i)))"
    by simp
  have "time (written ! (length connection + j)) = valid_to (agile_rates ! j) \<and>
        point_fields (written ! (length connection + j)) ''agile_rate_next'' =
          Some (Some (value_inc_vat (agile_rates ! i)))"
    if j: "j < length agile_rates" and ends: "maya_parse L (valid_to (agile_rates ! j)) = Some t0" for j
  proof -
    from agile_store_series_written [OF assms(1) j] obtain fl' where
      fl': "agile_fields_for_measurement L agile_rates (agile_rates ! j) = Inr fl'"
      and pt': "written ! (length connection + j) =
             \<lparr>measurement = series, tags = Map.empty, time = valid_to (agile_rates ! j),
              point_fields = fl'\<rparr>"
      by blast
    from agile_fields_for_measurement_Inr [OF fl'] ends hit
    have "fl' ''agile_rate_next'' = Some (Some (value_inc_vat (agile_rates ! i)))"
      by auto
    with pt' show ?thesis by simp
  qed
  with own show ?thesis by blast
qed

theorem rate_only_prev_and_next_witness:
  "agile_store_series london_night [] ''electricity'' [rate_2300, rate_2330] =
     (None, snd (agile_store_series london_night [] ''electricity'' [rate_2300, rate_2330])) \<and>
   maya_iso8601 london_night 1590967800 = valid_from ([rate_2300, rate_2330] ! 1) \<and>
   maya_parse london_night (valid_to ([rate_2300, rate_2330] ! 0)) = Some 1590967800 \<and>
   point_fields (snd (agile_store_series london_night [] ''electricity'' [rate_2300, rate_2330]) ! 1)
     ''agile_rate_prev'' = Some (Some 9) \<and>
   point_fields (snd (agile_store_series london_night [] ''electricity'' [rate_2300, rate_2330]) ! 0)
     ''agile_rate_next'' = Some (Some 9)"
proof -
  have run: "agile_store_series london_night [] ''electricity'' [rate_2300, rate_2330] =
     (None, snd (agile_store_series london_night [] ''electricity'' [rate_2300, rate_2330]))"
    by (simp add: night_rates_stored)
  have i: "1 < length [rate_2300, rate_2330]" by simp
  have t0: "maya_parse london_night (valid_from ([rate_2300, rate_2330] ! 1)) = Some 1590967800"
    by (simp add: rate_simps london_simps)
  have canon: "maya_iso8601 london_night 1590967800 = valid_from ([rate_2300, rate_2330] ! 1)"
    by (simp add: rate_simps london_simps)
  have uniq: "\<forall>other \<in> set [rate_2300, rate_2330].
      valid_from other = valid_from ([rate_2300, rate_2330] ! 1) \<longrightarrow>
      value_inc_vat other = value_inc_vat ([rate_2300, rate_2330] ! 1)"
    by (simp add: rate_simps)
  have ends: "maya_parse london_night (valid_to ([rate_2300, rate_2330] ! 0)) = Some 1590967800"
    by (simp add: rate_simps london_simps)
  note inst = rate_only_prev_and_next [OF run i t0 canon uniq]
  from inst have prev: "point_fields
      (snd (agile_store_series london_night [] ''electricity'' [rate_2300, rate_2330]) ! 1)
      ''agile_rate_prev'' = Some (Some 9)"
    by (simp add: rate_simps)
  from inst [THEN conjunct2, THEN conjunct2, rule_format, of 0] ends
  have nxt: "point_fields
      (snd (agile_store_series london_night [] ''electricity'' [rate_2300, rate_2330]) ! 0)
      ''agile_rate_next'' = Some (Some 9)"
    by (simp add: rate_simps)
  from run canon ends prev nxt show ?thesis by blast
qed

theorem rate_only_text_not_canonical:
  "fst (agile_store_series london_night [] ''electricity'' [rate_0000_local]) = None \<and>
   time (snd (agile_store_series london_night [] ''electricity'' [rate_0000_local]) ! 0) =
     valid_to rate_0000_local \<and>
   point_fields (snd (agile_store_series london_night [] ''electricity'' [rate_0000_local]) ! 0)
     ''agile_rate_prev'' \<noteq> Some (Some (value_inc_vat rate_0000_local))"
  by (simp add: local_rates_stored rate_0000_local_simps)

text \<open>
  C6, as the code has it. The point of a consumption interval has as \<^verbatim>\<open>time\<close> the
  interval's \<^verbatim>\<open>interval_end\<close>, as \<^verbatim>\<open>active_rate\<close> tag the resolved band (\<^verbatim>\<open>unit_rate\<close> for
  gas), and as \<^verbatim>\<open>time_of_day\<close> tag the \<^verbatim>\<open>%H:%M\<close> rendering of the end instant by
  \<^verbatim>\<open>datetime()\<close> called without a zone, which in the library is UTC and not the clock of
  \<^verbatim>\<open>unit_rate_low_zone\<close>.
\<close>

theorem point_time_and_tags:
  assumes "store_series L connection series metrics rate_data = (None, written)"
    and "i < length metrics"
  shows "\<exists>end_at band tod.
           maya_parse L (interval_end (metrics ! i)) = Some end_at \<and>
           maya_strftime L end_at None ''%H:%M'' = Some tod \<and>
           active_rate_field L series rate_data (metrics ! i) = Inr band \<and>
           (series = ''gas'' \<longrightarrow> band = ''unit_rate'') \<and>
           time (written ! (length connection + i)) = interval_end (metrics ! i) \<and>
           tags (written ! (length connection + i)) =
             [''active_rate'' \<mapsto> band, ''time_of_day'' \<mapsto> tod]"
proof -
  from store_series_written [OF assms(1)] obtain pts where
    ms: "measurements L series metrics rate_data = Inr pts" and w: "written = connection @ pts"
    by blast
  from measurements_Inr [OF ms] assms(2) obtain tg fl where
    tg: "tags_for_measurement L series rate_data (metrics ! i) = Inr tg"
    and pt: "pts ! i = \<lparr>measurement = series, tags = tg,
                         time = interval_end (metrics ! i), point_fields = fl\<rparr>"
    by blast
  from tags_for_measurement_Inr [OF tg] obtain end_at band tod where
    a: "maya_parse L (interval_end (metrics ! i)) = Some end_at"
    and b: "maya_strftime L end_at None ''%H:%M'' = Some tod"
    and c: "active_rate_field L series rate_data (metrics ! i) = Inr band"
    and d: "tg = [''active_rate'' \<mapsto> band, ''time_of_day'' \<mapsto> tod]"
    by blast
  from c have "series = ''gas'' \<longrightarrow> band = ''unit_rate''"
    by (auto simp: gas_unit_rate)
  with a b c d w pt show ?thesis by simp
qed

theorem point_time_and_tags_witness:
  "store_series london_night [] ''electricity'' [reading_0000] go_tariff =
     (None, snd (store_series london_night [] ''electricity'' [reading_0000] go_tariff)) \<and>
   time (snd (store_series london_night [] ''electricity'' [reading_0000] go_tariff) ! 0) =
     ''2020-06-01T00:30:00+01:00'' \<and>
   tags (snd (store_series london_night [] ''electricity'' [reading_0000] go_tariff) ! 0) =
     [''active_rate'' \<mapsto> ''unit_rate_high'', ''time_of_day'' \<mapsto> ''23:30'']"
proof -
  have run: "store_series london_night [] ''electricity'' [reading_0000] go_tariff =
     (None, snd (store_series london_night [] ''electricity'' [reading_0000] go_tariff))"
    by (simp add: go_store_0000)
  from point_time_and_tags [OF run, of 0] run show ?thesis
    by (auto simp: reading_simps london_simps go_band_0000)
qed

theorem time_of_day_is_not_local:
  "tags (snd (store_series london_night [] ''electricity'' [reading_0000] go_tariff) ! 0) ''time_of_day''
     \<noteq> maya_strftime london_night (the (maya_parse london_night (interval_end reading_0000)))
          (Some ''Europe/London'') ''%H:%M''"
  by (simp add: go_store_0000 reading_simps london_simps)

text \<open>
  C7. Asked to store an empty schedule, the rate-only script raises
  \<^verbatim>\<open>ClickException('No Agile rate data to store')\<close> to its caller, and the connection is
  left as it was: no point has been written.
\<close>

theorem agile_store_series_empty:
  "agile_store_series L connection series [] =
     (Some (ClickException ''No Agile rate data to store''), connection)"
  by (simp add: agile_store_series_def)

text \<open>
  C8, as the code has it. \<^verbatim>\<open>store_series\<close> validates neither the duration of an
  interval nor the order of a rate's boundaries, and rejects no batch for them, under any
  tariff. The \<^verbatim>\<open>interval_start\<close> of an interval is read only to resolve its rate band:
  the outcome of a batch, error or points written, is the same for any other start
  timestamps that leave the band of each interval as it was, and under a flat tariff
  (gas, or electricity without \<^verbatim>\<open>unit_rate_low_zone\<close>) for any start timestamps at all.
  The \<^verbatim>\<open>valid_from\<close> of a rate is not read at all when consumption is reconciled: the
  outcome is the same whatever it is.
\<close>

theorem no_interval_validation:
  "((\<forall>m \<in> set metrics.
        active_rate_field L series rate_data (m\<lparr>interval_start := new_start m\<rparr>) =
        active_rate_field L series rate_data m) \<longrightarrow>
      store_series L connection series
        (map (\<lambda>m. m\<lparr>interval_start := new_start m\<rparr>) metrics) rate_data =
      store_series L connection series metrics rate_data) \<and>
   (series = ''gas'' \<or> (\<exists>z. rate_data ''unit_rate_low_zone'' = Some z \<and> \<not> truthy z) \<longrightarrow>
      store_series L connection series
        (map (\<lambda>m. m\<lparr>interval_start := new_start m\<rparr>) metrics) rate_data =
      store_series L connection series metrics rate_data) \<and>
   (rate_data ''agile_unit_rates'' = Some (Rates schedule) \<longrightarrow>
      store_series L connection series metrics
        (rate_data(''agile_unit_rates'' \<mapsto>
           Rates (map (\<lambda>point. point\<lparr>valid_from := new_from point\<rparr>) schedule))) =
      store_series L connection series metrics rate_data)"
proof (intro conjI impI)
  assume "\<forall>m \<in> set metrics.
        active_rate_field L series rate_data (m\<lparr>interval_start := new_start m\<rparr>) =
        active_rate_field L series rate_data m"
  then show "store_series L connection series
        (map (\<lambda>m. m\<lparr>interval_start := new_start m\<rparr>) metrics) rate_data =
      store_series L connection series metrics rate_data"
    by (simp add: store_series_def measurements_same_band)
next
  assume "series = ''gas'' \<or> (\<exists>z. rate_data ''unit_rate_low_zone'' = Some z \<and> \<not> truthy z)"
  then show "store_series L connection series
        (map (\<lambda>m. m\<lparr>interval_start := new_start m\<rparr>) metrics) rate_data =
      store_series L connection series metrics rate_data"
    by (simp add: store_series_def measurements_flat)
next
  assume "rate_data ''agile_unit_rates'' = Some (Rates schedule)"
  then show "store_series L connection series metrics
        (rate_data(''agile_unit_rates'' \<mapsto>
           Rates (map (\<lambda>point. point\<lparr>valid_from := new_from point\<rparr>) schedule))) =
      store_series L connection series metrics rate_data"
    by (simp add: store_series_def measurements_valid_from)
qed

theorem no_interval_validation_witness:
  "active_rate_field london_night ''electricity'' go_tariff
     (reading_0030\<lparr>interval_start := interval_end reading_0030\<rparr>) =
   active_rate_field london_night ''electricity'' go_tariff reading_0030 \<and>
   store_series london_night [] ''electricity''
     (map (\<lambda>m. m\<lparr>interval_start := interval_end m\<rparr>) [reading_0030]) go_tariff =
   store_series london_night [] ''electricity'' [reading_0030] go_tariff \<and>
   store_series london_night [] ''gas''
     (map (\<lambda>m. m\<lparr>interval_start := interval_end m\<rparr>) [reading_0000, reading_0030]) gas_tariff =
   store_series london_night [] ''gas'' [reading_0000, reading_0030] gas_tariff \<and>
   gap_tariff ''agile_unit_rates'' = Some (Rates [rate_2330]) \<and>
   store_series london_night [] ''electricity'' [reading_0000, reading_0030]
     (gap_tariff(''agile_unit_rates'' \<mapsto>
        Rates (map (\<lambda>point. point\<lparr>valid_from := valid_to point\<rparr>) [rate_2330]))) =
   store_series london_night [] ''electricity'' [reading_0000, reading_0030] gap_tariff"
proof -
  have band: "active_rate_field london_night ''electricity'' go_tariff
     (reading_0030\<lparr>interval_start := interval_end reading_0030\<rparr>) =
     active_rate_field london_night ''electricity'' go_tariff reading_0030"
    by (simp add: go_band_zero_length go_band_0030)
  then have same: "\<forall>m \<in> set [reading_0030].
      active_rate_field london_night ''electricity'' go_tariff (m\<lparr>interval_start := interval_end m\<rparr>) =
      active_rate_field london_night ''electricity'' go_tariff m"
    by simp
  note tou = no_interval_validation [where series = "''electricity''" and rate_data = go_tariff
      and L = london_night and connection = "[]" and new_start = interval_end
      and metrics = "[reading_0030]", THEN conjunct1, THEN mp, OF same]
  note gas = no_interval_validation [where series = "''gas''" and rate_data = gas_tariff
      and L = london_night and connection = "[]" and new_start = interval_end
      and metrics = "[reading_0000, reading_0030]", THEN conjunct2, THEN conjunct1]
  note rates = no_interval_validation [where series = "''electricity''" and rate_data = gap_tariff
      and L = london_night and connection = "[]" and metrics = "[reading_0000, reading_0030]"
      and schedule = "[rate_2330]" and new_from = valid_to, THEN conjunct2, THEN conjunct2]
  from band tou gas rates show ?thesis
    by (simp add: gap_tariff_simps)
qed

theorem malformed_batch_accepted:
  "the (maya_parse london_night (interval_end reading_hour)) -
     the (maya_parse london_night (interval_start reading_hour)) = 3600 \<and>
   the (maya_parse london_night (valid_to rate_backwards)) <
     the (maya_parse london_night (valid_from rate_backwards)) \<and>
   get_agile_data backwards_tariff = Inr [rate_backwards] \<and>
   fst (store_series london_night [] ''electricity'' [reading_hour] backwards_tariff) = None \<and>
   length (snd (store_series london_night [] ''electricity'' [reading_hour] backwards_tariff)) = 1 \<and>
   point_fields (snd (store_series london_night [] ''electricity'' [reading_hour] backwards_tariff) ! 0)
     ''cost'' = Some (3 / 10)"
  by (simp add: backwards_store get_agile_data_def backwards_tariff_simps reading_hour_simps
        rate_backwards_simps london_simps)

text \<open>
  C9. A run of \<^verbatim>\<open>store_series\<close> that returns has handed the storage client exactly one
  point per consumption interval, in order, each under the series name and at the end of
  its interval, while a run that raises has written nothing; and on an empty list of
  intervals it returns, with nothing written, whenever \<^verbatim>\<open>agile_unit_rates\<close> is a list or
  absent.
\<close>

theorem one_point_per_interval:
  "(store_series L connection series metrics rate_data = (None, written) \<longrightarrow>
      (\<exists>pts. written = connection @ pts \<and> length pts = length metrics \<and>
         (\<forall>i<length metrics. measurement (pts ! i) = series \<and>
                               time (pts ! i) = interval_end (metrics ! i)))) \<and>
   (store_series L connection series metrics rate_data = (Some e, written) \<longrightarrow>
      written = connection) \<and>
   (get_agile_data rate_data = Inr agile_data \<longrightarrow>
      store_series L connection series [] rate_data = (None, connection))"
proof (intro conjI impI)
  assume "store_series L connection series metrics rate_data = (None, written)"
  from store_series_written [OF this] obtain pts where
    ms: "measurements L series metrics rate_data = Inr pts" and w: "written = connection @ pts"
    by blast
  from measurements_Inr [OF ms] have "length pts = length metrics"
    and "\<forall>i<length metrics. measurement (pts ! i) = series \<and>
                               time (pts ! i) = interval_end (metrics ! i)"
    by auto
  with w show "\<exists>pts. written = connection @ pts \<and> length pts = length metrics \<and>
         (\<forall>i<length metrics. measurement (pts ! i) = series \<and>
                               time (pts ! i) = interval_end (metrics ! i))"
    by blast
next
  assume "store_series L connection series metrics rate_data = (Some e, written)"
  from store_series_raised [OF this] show "written = connection" by simp
next
  assume "get_agile_data rate_data = Inr agile_data"
  then show "store_series L connection series [] rate_data = (None, connection)"
    by (simp add: store_series_def measurements_def write_points_def)
qed

theorem one_point_per_interval_witness:
  "store_series london_night [] ''electricity'' [reading_0000] go_tariff =
     (None, snd (store_series london_night [] ''electricity'' [reading_0000] go_tariff)) \<and>
   length (snd (store_series london_night [] ''electricity'' [reading_0000] go_tariff)) = 1 \<and>
   get_agile_data go_tariff = Inr [] \<and>
   store_series london_night [] ''electricity'' [] go_tariff = (None, [])"
proof -
  have run: "store_series london_night [] ''electricity'' [reading_0000] go_tariff =
     (None, snd (store_series london_night [] ''electricity'' [reading_0000] go_tariff))"
    by (simp add: go_store_0000)
  have ag: "get_agile_data go_tariff = Inr []"
    by (simp add: get_agile_data_def go_tariff_simps)
  from one_point_per_interval [of london_night "[]" "''electricity''" "[reading_0000]" go_tariff
      "snd (store_series london_night [] ''electricity'' [reading_0000] go_tariff)" _ "[]"] run ag
  show ?thesis by auto
qed

text \<open>
  C10. The point written for a consumption interval always has the fields
  \<^verbatim>\<open>consumption\<close>, \<^verbatim>\<open>cost\<close> and \<^verbatim>\<open>total_cost\<close>, with the values the static tariff alone gives
  (those of the run without agile rates). With no agile rates these are all its fields;
  with agile rates the same point has the three keys \<^verbatim>\<open>agile_rate\<close>, \<^verbatim>\<open>agile_cost\<close> and
  \<^verbatim>\<open>agile_total_cost\<close> as well, the costs computed from the rate, and the three static
  fields keep their values.
\<close>

theorem static_fields_kept:
  assumes "store_series L connection series metrics rate_data = (None, written)"
    and "i < length metrics"
    and "get_agile_data rate_data = Inr agile_data"
  shows "\<exists>static rate p s.
           fields_for_measurement L series rate_data [] (metrics ! i) = Inr static \<and>
           active_rate_field L series rate_data (metrics ! i) = Inr rate \<and>
           rate_data rate = Some (Num p) \<and> rate_data ''standing_charge'' = Some (Num s) \<and>
           static = [''consumption'' \<mapsto> consumption (metrics ! i),
                     ''cost'' \<mapsto> consumption (metrics ! i) * p,
                     ''total_cost'' \<mapsto> consumption (metrics ! i) * p + s / 48] \<and>
           point_fields (written ! (length connection + i)) ''consumption'' = static ''consumption'' \<and>
           point_fields (written ! (length connection + i)) ''cost'' = static ''cost'' \<and>
           point_fields (written ! (length connection + i)) ''total_cost'' = static ''total_cost'' \<and>
           (agile_data = [] \<longrightarrow> point_fields (written ! (length connection + i)) = static) \<and>
           (agile_data \<noteq> [] \<longrightarrow>
              dom (point_fields (written ! (length connection + i))) =
                {''consumption'', ''cost'', ''total_cost'',
                 ''agile_rate'', ''agile_cost'', ''agile_total_cost''} \<and>
              (\<exists>a asc. rate_data ''agile_standing_charge'' = Some (Num asc) \<and>
                 point_fields (written ! (length connection + i)) ''agile_rate'' = Some a \<and>
                 point_fields (written ! (length connection + i)) ''agile_cost'' =
                   Some (a * consumption (metrics ! i)) \<and>
                 point_fields (written ! (length connection + i)) ''agile_total_cost'' =
                   Some (a * consumption (metrics ! i) + asc / 48)))"
proof -
  from store_series_written [OF assms(1)] obtain pts where
    ms: "measurements L series metrics rate_data = Inr pts" and w: "written = connection @ pts"
    by blast
  from measurements_Inr [OF ms] assms(2,3) obtain tg fl where
    fl: "fields_for_measurement L series rate_data agile_data (metrics ! i) = Inr fl"
    and pt: "pts ! i = \<lparr>measurement = series, tags = tg,
                         time = interval_end (metrics ! i), point_fields = fl\<rparr>"
    by auto
  from w pt have stored: "point_fields (written ! (length connection + i)) = fl"
    by simp
  from fields_for_measurement_Inr [OF fl] obtain rate p s where
    r: "active_rate_field L series rate_data (metrics ! i) = Inr rate"
    and p: "rate_data rate = Some (Num p)"
    and s: "rate_data ''standing_charge'' = Some (Num s)"
    and plain: "agile_data = [] \<longrightarrow>
              fl = [''consumption'' \<mapsto> consumption (metrics ! i),
                    ''cost'' \<mapsto> consumption (metrics ! i) * p,
                    ''total_cost'' \<mapsto> consumption (metrics ! i) * p + s / 48]"
    and agile: "agile_data \<noteq> [] \<longrightarrow>
              (\<exists>asc t. rate_data ''agile_standing_charge'' = Some (Num asc) \<and>
                 maya_parse L (interval_end (metrics ! i)) = Some t \<and>
                 fl = [''consumption'' \<mapsto> consumption (metrics ! i),
                       ''cost'' \<mapsto> consumption (metrics ! i) * p,
                       ''total_cost'' \<mapsto> consumption (metrics ! i) * p + s / 48] ++
                      [''agile_rate'' \<mapsto>
                         (case agile_rates_to agile_data (maya_iso8601 L t) of Some v \<Rightarrow> v | None \<Rightarrow> p),
                       ''agile_cost'' \<mapsto>
                         (case agile_rates_to agile_data (maya_iso8601 L t) of Some v \<Rightarrow> v | None \<Rightarrow> p)
                           * consumption (metrics ! i),
                       ''agile_total_cost'' \<mapsto>
                         (case agile_rates_to agile_data (maya_iso8601 L t) of Some v \<Rightarrow> v | None \<Rightarrow> p)
                           * consumption (metrics ! i) + asc / 48])"
    by blast
  have static: "fields_for_measurement L series rate_data [] (metrics ! i) =
      Inr [''consumption'' \<mapsto> consumption (metrics ! i),
           ''cost'' \<mapsto> consumption (metrics ! i) * p,
           ''total_cost'' \<mapsto> consumption (metrics ! i) * p + s / 48]"
    using r p s by (simp add: fields_for_measurement_def getitem_def Let_def)
  have vals: "fl ''consumption'' = Some (consumption (metrics ! i))"
      "fl ''cost'' = Some (consumption (metrics ! i) * p)"
      "fl ''total_cost'' = Some (consumption (metrics ! i) * p + s / 48)"
    using plain agile by (cases "agile_data = []"; auto)+
  have added: "dom fl = {''consumption'', ''cost'', ''total_cost'',
                        ''agile_rate'', ''agile_cost'', ''agile_total_cost''} \<and>
      (\<exists>a asc. rate_data ''agile_standing_charge'' = Some (Num asc) \<and>
         fl ''agile_rate'' = Some a \<and>
         fl ''agile_cost'' = Some (a * consumption (metrics ! i)) \<and>
         fl ''agile_total_cost'' = Some (a * consumption (metrics ! i) + asc / 48))"
    if "agile_data \<noteq> []"
  proof -
    from agile that obtain asc t where
      asc: "rate_data ''agile_standing_charge'' = Some (Num asc)"
      and eq: "fl = [''consumption'' \<mapsto> consumption (metrics ! i),
                       ''cost'' \<mapsto> consumption (metrics ! i) * p,
                       ''total_cost'' \<mapsto> consumption (metrics ! i) * p + s / 48] ++
                      [''agile_rate'' \<mapsto>
                         (case agile_rates_to agile_data (maya_iso8601 L t) of Some v \<Rightarrow> v | None \<Rightarrow> p),
                       ''agile_cost'' \<mapsto>
                         (case agile_rates_to agile_data (maya_iso8601 L t) of Some v \<Rightarrow> v | None \<Rightarrow> p)
                           * consumption (metrics ! i),
                       ''agile_total_cost'' \<mapsto>
                         (case agile_rates_to agile_data (maya_iso8601 L t) of Some v \<Rightarrow> v | None \<Rightarrow> p)
                           * consumption (metrics ! i) + asc / 48]"
      by blast
    from eq have keys: "dom fl = {''consumption'', ''cost'', ''total_cost'',
                        ''agile_rate'', ''agile_cost'', ''agile_total_cost''}"
      by auto
    from eq have
      "fl ''agile_rate'' =
         Some (case agile_rates_to agile_data (maya_iso8601 L t) of Some v \<Rightarrow> v | None \<Rightarrow> p)"
      "fl ''agile_cost'' =
         Some ((case agile_rates_to agile_data (maya_iso8601 L t) of Some v \<Rightarrow> v | None \<Rightarrow> p)
                 * consumption (metrics ! i))"
      "fl ''agile_total_cost'' =
         Some ((case agile_rates_to agile_data (maya_iso8601 L t) of Some v \<Rightarrow> v | None \<Rightarrow> p)
                 * consumption (metrics ! i) + asc / 48)"
      by simp_all
    with asc keys show ?thesis by blast
  qed
  have whole: "fl = [''consumption'' \<mapsto> consumption (metrics ! i),
                    ''cost'' \<mapsto> consumption (metrics ! i) * p,
                    ''total_cost'' \<mapsto> consumption (metrics ! i) * p + s / 48]"
    if "agile_data = []"
    using plain that by simp
  show ?thesis
    unfolding stored
    apply (rule exI [of _ "[''consumption'' \<mapsto> consumption (metrics ! i),
                    ''cost'' \<mapsto> consumption (metrics ! i) * p,
                    ''total_cost'' \<mapsto> consumption (metrics ! i) * p + s / 48]"])
    apply (rule exI [of _ rate], rule exI [of _ p], rule exI [of _ s])
    apply (intro conjI impI)
    apply (rule static)
    apply (rule r)
    apply (rule p)
    apply (rule s)
    apply (rule refl)
    apply (simp add: vals)
    apply (simp add: vals)
    apply (simp add: vals)
    apply (erule whole)
    apply (erule added [THEN conjunct1])
    apply (erule added [THEN conjunct2])
    done
qed

theorem static_fields_kept_witness:
  "store_series london_night [] ''electricity'' [reading_0000, reading_0030] gap_tariff =
     (None, snd (store_series london_night [] ''electricity'' [reading_0000, reading_0030] gap_tariff)) \<and>
   get_agile_data gap_tariff = Inr [rate_2330] \<and>
   point_fields
     (snd (store_series london_night [] ''electricity'' [reading_0000, reading_0030] gap_tariff) ! 1)
     ''cost'' = Some (1 / 80) \<and>
   dom (point_fields
     (snd (store_series london_night [] ''electricity'' [reading_0000, reading_0030] gap_tariff) ! 1)) =
     {''consumption'', ''cost'', ''total_cost'', ''agile_rate'', ''agile_cost'', ''agile_total_cost''}"
proof -
  have run: "store_series london_night [] ''electricity'' [reading_0000, reading_0030] gap_tariff =
     (None, snd (store_series london_night [] ''electricity'' [reading_0000, reading_0030] gap_tariff))"
    by (simp add: gap_store)
  have ag: "get_agile_data gap_tariff = Inr [rate_2330]"
    by (simp add: get_agile_data_def gap_tariff_simps)
  have i: "1 < length [reading_0000, reading_0030]" by simp
  note inst = static_fields_kept [OF run i ag]
  from inst have "point_fields
     (snd (store_series london_night [] ''electricity'' [reading_0000, reading_0030] gap_tariff) ! 1)
     ''cost'' = Some (1 / 80)"
    by (elim exE conjE) (clarsimp simp: gap_band_0030 gap_tariff_simps reading_simps)
  moreover from inst have "dom (point_fields
     (snd (store_series london_night [] ''electricity'' [reading_0000, reading_0030] gap_tariff) ! 1)) =
     {''consumption'', ''cost'', ''total_cost'', ''agile_rate'', ''agile_cost'', ''agile_total_cost''}"
    by (elim exE conjE) simp
  ultimately show ?thesis using run ag by blast
qed

end
